theory Spec2Isabelle
  imports Complex_Main "HOL-Library.AList"
begin

section \<open>Values: strings, JSON, stored documents, exceptions\<close>

text \<open>
  A Python \<open>str\<close> is a sequence of Unicode code points, so it is modelled as a list of
  natural numbers (slicing and \<open>len\<close> count code points, and the placeholder texts of
  the upload handlers are Devanagari). \<open>lit\<close> turns an ASCII literal of the source into
  such a string.
\<close>

type_synonym str = "nat list"

definition lit :: "string \<Rightarrow> str" where
  "lit s = map of_char s"

text \<open>\<open>"\n".join(lines)\<close>: the lines of a triple-quoted template.\<close>

fun join_lines :: "str list \<Rightarrow> str" where
  "join_lines [] = []"
| "join_lines [l] = l"
| "join_lines (l # ls) = l @ [10] @ join_lines ls"

text \<open>
  The values \<open>json.loads\<close> returns and the handlers answer with. A Python dict keeps
  its insertion order, so an object is an association list.
\<close>

datatype json =
    JNull
  | JBool bool
  | JInt int
  | JFloat real
  | JStr str
  | JArr "json list"
  | JObj "(str \<times> json) list"

text \<open>\<open>x[key]\<close> on a response dict (\<open>None\<close> where Python raises \<open>KeyError\<close>).\<close>

fun json_get :: "json \<Rightarrow> str \<Rightarrow> json option" where
  "json_get (JObj kvs) k = map_of kvs k"
| "json_get _ k = None"

text \<open>An optional string field (\<open>Optional[str]\<close>) as a JSON value.\<close>

fun opt_json :: "str option \<Rightarrow> json" where
  "opt_json None = JNull"
| "opt_json (Some s) = JStr s"

text \<open>
  The records of the user-progress collection are kept as the store keeps them: as
  documents, that is dicts from field names to values. (The other three collections
  only ever hold the output of \<open>Model(...).dict()\<close> and are kept as records below.)
  The store's own \<open>_id\<close> key is left out: no handler reads it.
\<close>

datatype bson =
    BStr str
  | BInt int
  | BDate nat
  | BArr "bson list"

type_synonym document = "(str \<times> bson) list"

text \<open>
  Exceptions. \<open>HTTPException(status_code, detail)\<close> is the only one the source raises
  by name; the others are raised by the Python runtime or by a library on the paths the
  handlers can take. \<open>Failed prefix e\<close> is the f-string \<open>f"{prefix}{str(e)}"\<close> of the
  \<open>except\<close> blocks, kept symbolic in the exception it wraps.
\<close>

datatype exn =
    HTTPException nat detail
  | AttributeError str
  | UnboundLocalError str
  | TypeError str
  | FileNotFoundError str
  | ProviderError str
  | OperationFailure str
  | WriteError str
and detail =
    Detail str
  | Failed str exn

text \<open>
  The HTTP status the framework answers with: 200 for a returned body, the status of an
  \<open>HTTPException\<close>, and 500 for any other exception that leaves a handler.
\<close>

fun status_code :: "exn + 'a \<Rightarrow> nat" where
  "status_code (Inr _) = 200"
| "status_code (Inl (HTTPException s _)) = s"
| "status_code (Inl _) = 500"

section \<open>Data model\<close>

text \<open>
  \<open>BaseDocument\<close> and the four entities that extend it. Fields of the subclasses carry a
  prefix, since several classes share field names; \<open>id\<close> is \<open>id'\<close>. Timestamps are
  clock readings.
\<close>

record BaseDocument =
  id' :: str
  created_at :: nat
  updated_at :: nat

record CulturalDocument = BaseDocument +
  cd_title :: str
  cd_description :: "str option"
  cd_script_type :: "str option"
  cd_language :: str
  cd_original_text :: "str option"
  cd_restored_text :: "str option"
  cd_translation :: "(str \<times> str) list option"
  cd_region :: "str option"
  cd_time_period :: "str option"
  cd_restoration_confidence :: "real option"
  cd_embeddings :: "real list option"
  cd_tags :: "str list"

record FolkSong = BaseDocument +
  fs_title :: str
  fs_performer :: "str option"
  fs_region :: str
  fs_language :: str
  fs_transcription :: "str option"
  fs_audio_path :: "str option"
  fs_lyrics :: "str option"
  fs_cultural_significance :: "str option"
  fs_embeddings :: "real list option"

record Story = BaseDocument +
  st_title :: str
  st_content :: str
  st_source_document_id :: "str option"
  st_story_type :: str
  st_language :: str
  st_audio_narration :: "str option"
  st_quiz_questions :: "(str \<times> json) list list option"

record UserProgress = BaseDocument +
  up_user_id :: str
  up_badges :: "str list"
  up_points :: int
  up_documents_explored :: "str list"
  up_translations_contributed :: int
  up_stories_completed :: int

text \<open>\<open>UserProgress.dict()\<close>: the document that is inserted and returned.\<close>

definition UserProgress_dict :: "UserProgress \<Rightarrow> document" where
  "UserProgress_dict p =
     [(lit ''id'', BStr (id' p)),
      (lit ''created_at'', BDate (created_at p)),
      (lit ''updated_at'', BDate (updated_at p)),
      (lit ''user_id'', BStr (up_user_id p)),
      (lit ''badges'', BArr (map BStr (up_badges p))),
      (lit ''points'', BInt (up_points p)),
      (lit ''documents_explored'', BArr (map BStr (up_documents_explored p))),
      (lit ''translations_contributed'', BInt (up_translations_contributed p)),
      (lit ''stories_completed'', BInt (up_stories_completed p))]"

text \<open>The request bodies and the uploaded file.\<close>

record RestoreRequest =
  rr_text :: str
  rr_language :: str
  rr_context :: "str option"

record TranslateRequest =
  tr_text :: str
  tr_source_language :: str
  tr_target_language :: str

record StoryRequest =
  sr_document_id :: str
  sr_story_type :: str
  sr_target_language :: str

record SearchRequest =
  sq_query :: str
  sq_search_type :: str
  sq_language :: "str option"
  sq_limit :: int

record UploadFile =
  filename :: str
  content :: "nat list"

section \<open>The environment and the state\<close>

text \<open>
  Every handler is a function from the environment, its arguments and the state to a
  result and the state it leaves: the result is the returned body or the exception that
  leaves the handler. A request body has been validated against its model, so it is a
  record of the model's type; the answer is the handler's return value, before the
  framework serialises it. The store is taken to be up: an insert, a find and an update
  do what they are documented to do, and a find returns records in insertion order.
  Logging is left out.
\<close>

text \<open>
  What a request reads from outside the program, as explicit inputs:
  the API key of the process environment; the embedding model, \<open>None\<close> when the import
  at start-up failed; the LLM provider, which answers a prompt with text or fails with a
  message; \<open>json.loads\<close>, \<open>None\<close> where it raises; the \<open>n\<close>-th \<open>uuid.uuid4()\<close> and the
  \<open>n\<close>-th clock reading of the request; the temporary directory; and the store's
  \<open>$regex\<close> operator with option \<open>i\<close>, which compiles a pattern to a search predicate
  or rejects it.
\<close>

record env =
  EMERGENT_LLM_KEY :: "str option"
  embedding_model :: "(str \<Rightarrow> real list) option"
  llm :: "str \<Rightarrow> str \<Rightarrow> str \<Rightarrow> str + str"
  json_loads :: "str \<Rightarrow> json option"
  uuid4 :: "nat \<Rightarrow> str"
  utcnow :: "nat \<Rightarrow> nat"
  gettempdir :: str
  regex :: "str \<Rightarrow> (str \<Rightarrow> bool) option"

text \<open>
  What a request can change: the four collections (in insertion order), the files of the
  upload directory, and a log of the provider calls made, so that "no provider call" can
  be stated.
\<close>

record world =
  cultural_documents :: "CulturalDocument list"
  folk_songs :: "FolkSong list"
  stories :: "Story list"
  user_progress :: "document list"
  files :: "str \<Rightarrow> nat list option"
  provider_calls :: "(str \<times> str \<times> str) list"

text \<open>The state before any request: empty collections, no files, no calls.\<close>

definition empty_world :: world where
  "empty_world =
     \<lparr>cultural_documents = [], folk_songs = [], stories = [], user_progress = [],
      files = (\<lambda>p. None), provider_calls = []\<rparr>"

text \<open>
  The \<open>except Exception as e\<close> block that closes five of the handlers: whatever was
  raised in the body, an \<open>HTTPException\<close> included, is raised again as a 500 whose
  detail is the handler's prefix and \<open>str(e)\<close>. The state is as the body left it.
\<close>

definition reraise_500 :: "str \<Rightarrow> (exn + 'a) \<times> world \<Rightarrow> (exn + 'a) \<times> world" where
  "reraise_500 prefix r =
     (case r of
        (Inl e, w) \<Rightarrow> (Inl (HTTPException 500 (Failed prefix e)), w)
      | (Inr v, w) \<Rightarrow> (Inr v, w))"

section \<open>LLM helper functions\<close>

record chat =
  chat_session_id :: str
  chat_provider :: str
  chat_model :: str

text \<open>\<open>get_llm_client\<close>: \<open>if not api_key\<close> holds for a missing and for an empty key.\<close>

definition get_llm_client :: "env \<Rightarrow> str \<Rightarrow> str \<Rightarrow> exn + chat" where
  "get_llm_client e provider model =
     (if EMERGENT_LLM_KEY e = None \<or> EMERGENT_LLM_KEY e = Some []
      then Inl (HTTPException 500 (Detail (lit ''EMERGENT_LLM_KEY not found'')))
      else Inr \<lparr>chat_session_id = uuid4 e 0, chat_provider = provider, chat_model = model\<rparr>)"

text \<open>\<open>chat.send_message(UserMessage(text=prompt))\<close>: the call is logged, then answered.\<close>

definition send_message :: "env \<Rightarrow> chat \<Rightarrow> str \<Rightarrow> world \<Rightarrow> (exn + str) \<times> world" where
  "send_message e c prompt w =
     (let w' = w\<lparr>provider_calls := provider_calls w @ [(chat_provider c, chat_model c, prompt)]\<rparr>
      in case llm e (chat_provider c) (chat_model c) prompt of
           Inl msg \<Rightarrow> (Inl (ProviderError msg), w')
         | Inr response \<Rightarrow> (Inr response, w'))"

text \<open>
  \<open>save_upload_file\<close>: the upload is written to
  \<open>gettempdir()/parampara_uploads/{uuid4()}_{filename}\<close>, and the path is returned. The
  directory is taken to be writable and the file name to be a plain name, so the write
  succeeds.
\<close>

definition save_upload_file :: "env \<Rightarrow> UploadFile \<Rightarrow> world \<Rightarrow> str \<times> world" where
  "save_upload_file e upload_file w =
     (let temp_dir = gettempdir e @ lit ''/parampara_uploads'';
          file_path = temp_dir @ lit ''/'' @ uuid4 e 0 @ lit ''_'' @ filename upload_file
      in (file_path, w\<lparr>files := (files w)(file_path \<mapsto> content upload_file)\<rparr>))"

text \<open>\<open>os.remove(path)\<close> raises when there is no such file.\<close>

definition os_remove :: "str \<Rightarrow> world \<Rightarrow> exn + world" where
  "os_remove path w =
     (if files w path = None then Inl (FileNotFoundError path)
      else Inr (w\<lparr>files := (files w)(path := None)\<rparr>))"

section \<open>Restoration and translation\<close>

text \<open>
  The two prompt templates, with the request's fields interpolated.
  \<open>request.context or "..."\<close> takes the default for a missing and for an empty context.
\<close>

definition restoration_prompt :: "RestoreRequest \<Rightarrow> str" where
  \<open>restoration_prompt request = join_lines
     [[],
      lit ''        As an expert in '' @ rr_language request @
        lit '' cultural heritage and ancient texts, please restore this potentially damaged or incomplete text:'',
      [],
      lit ''        Original Text: '' @ rr_text request,
      lit ''        Language: '' @ rr_language request,
      lit ''        Context: '' @
        (case rr_context request of
           None \<Rightarrow> lit ''Ancient manuscript or inscription''
         | Some c \<Rightarrow> if c = [] then lit ''Ancient manuscript or inscription'' else c),
      [],
      lit ''        Instructions:'',
      lit ''        1. Identify missing or damaged portions'',
      lit ''        2. Restore using cultural and linguistic knowledge'',
      lit ''        3. Maintain authenticity and historical accuracy'',
      lit ''        4. Explain your restoration choices'',
      lit ''        5. Provide confidence score (0-1)'',
      [],
      lit ''        Return in JSON format:'',
      lit ''        {'',
      lit ''            "restored_text": "complete restored text",'',
      lit ''            "changes_made": ["list of specific changes"],'',
      lit ''            "confidence": 0.85,'',
      lit ''            "explanation": "detailed explanation of restoration process"'',
      lit ''        }'',
      lit ''        '']\<close>

definition translation_prompt :: "TranslateRequest \<Rightarrow> str" where
  \<open>translation_prompt request = join_lines
     [[],
      lit ''        As an expert translator specializing in Indian languages and cultural contexts, translate this text:'',
      [],
      lit ''        Text: '' @ tr_text request,
      lit ''        From: '' @ tr_source_language request,
      lit ''        To: '' @ tr_target_language request,
      [],
      lit ''        Instructions:'',
      lit ''        1. Maintain cultural nuances and context'',
      lit ''        2. Preserve religious/spiritual terminology appropriately'',
      lit ''        3. Keep historical references intact'',
      lit ''        4. Provide cultural notes if needed'',
      [],
      lit ''        Return in JSON format:'',
      lit ''        {'',
      lit ''            "translated_text": "translated content",'',
      lit ''            "cultural_notes": "any important cultural context",'',
      lit ''            "confidence": 0.9'',
      lit ''        }'',
      lit ''        '']\<close>

text \<open>
  The response normaliser of \<open>/restore\<close>: the parsed value when \<open>json.loads\<close> returns
  one, else the fallback dict around the raw text.
\<close>

definition restore_result :: "env \<Rightarrow> str \<Rightarrow> json" where
  "restore_result e response =
     (case json_loads e response of
        Some result \<Rightarrow> result
      | None \<Rightarrow>
          JObj [(lit ''restored_text'', JStr response),
                (lit ''changes_made'', JArr [JStr (lit ''AI restoration applied'')]),
                (lit ''confidence'', JFloat 0.7),
                (lit ''explanation'', JStr (lit ''Text restored using AI cultural knowledge''))])"

definition restore_text_body :: "env \<Rightarrow> RestoreRequest \<Rightarrow> world \<Rightarrow> (exn + json) \<times> world" where
  "restore_text_body e request w =
     (case get_llm_client e (lit ''anthropic'') (lit ''claude-sonnet-4-20250514'') of
        Inl err \<Rightarrow> (Inl err, w)
      | Inr chat \<Rightarrow>
          (case send_message e chat (restoration_prompt request) w of
             (Inl err, w') \<Rightarrow> (Inl err, w')
           | (Inr response, w') \<Rightarrow> (Inr (restore_result e response), w')))"

definition restore_text :: "env \<Rightarrow> RestoreRequest \<Rightarrow> world \<Rightarrow> (exn + json) \<times> world" where
  "restore_text e request w =
     reraise_500 (lit ''Text restoration failed: '') (restore_text_body e request w)"

definition translate_result :: "env \<Rightarrow> str \<Rightarrow> json" where
  "translate_result e response =
     (case json_loads e response of
        Some result \<Rightarrow> result
      | None \<Rightarrow>
          JObj [(lit ''translated_text'', JStr response),
                (lit ''cultural_notes'', JStr (lit ''AI translation with cultural awareness'')),
                (lit ''confidence'', JFloat 0.8)])"

definition translate_text_body :: "env \<Rightarrow> TranslateRequest \<Rightarrow> world \<Rightarrow> (exn + json) \<times> world" where
  "translate_text_body e request w =
     (case get_llm_client e (lit ''gemini'') (lit ''gemini-2.0-flash'') of
        Inl err \<Rightarrow> (Inl err, w)
      | Inr chat \<Rightarrow>
          (case send_message e chat (translation_prompt request) w of
             (Inl err, w') \<Rightarrow> (Inl err, w')
           | (Inr response, w') \<Rightarrow> (Inr (translate_result e response), w')))"

definition translate_text :: "env \<Rightarrow> TranslateRequest \<Rightarrow> world \<Rightarrow> (exn + json) \<times> world" where
  "translate_text e request w =
     reraise_500 (lit ''Translation failed: '') (translate_text_body e request w)"

section \<open>Upload endpoints\<close>

text \<open>
  OCR and transcription are simulated: the extracted text is a bracketed line naming the
  file, a newline, and a fixed sentence in Devanagari (given by its code points).
\<close>

definition ocr_sample :: str where
  "ocr_sample =
     [2360, 2306, 2360, 2381, 2325, 2371, 2340, 32, 2358, 2381, 2354, 2379,
      2325, 32, 2351, 2366, 32, 2346, 2381, 2352, 2366, 2330, 2368, 2344,
      32, 2346, 2366, 2336, 32, 2351, 2361, 2366, 2305, 32, 2361, 2379,
      2327, 2366, 46, 46, 46]"

definition song_sample :: str where
  "song_sample =
     [2327, 2368, 2340, 32, 2325, 2375, 32, 2348, 2379, 2354, 32, 2351,
      2361, 2366, 2305, 32, 2361, 2379, 2306, 2327, 2375, 46, 46, 46]
     @ lit '' (Transcribed lyrics would appear here)''"

text \<open>
  \<open>POST /ocr/upload\<close>. The steps of the \<open>try\<close> block in order: stage the upload,
  build the record (its id is the request's second uuid, the first names the file),
  encode the text (\<open>embedding_model\<close> is \<open>None\<close> when its import failed, and
  \<open>None.encode\<close> raises), insert, remove the staged file, answer.
\<close>

definition upload_document_ocr_body ::
  "env \<Rightarrow> UploadFile \<Rightarrow> str \<Rightarrow> str \<Rightarrow> world \<Rightarrow> (exn + json) \<times> world" where
  "upload_document_ocr_body e file script_type language w =
     (let (file_path, w1) = save_upload_file e file w;
          extracted_text = lit ''[OCR Extracted Text from '' @ filename file @ lit '']'' @ [10] @ ocr_sample;
          document =
            \<lparr>id' = uuid4 e 1, created_at = utcnow e 0, updated_at = utcnow e 1,
             cd_title = filename file,
             cd_description = None,
             cd_script_type = Some script_type,
             cd_language = language,
             cd_original_text = Some extracted_text,
             cd_restored_text = None,
             cd_translation = Some [],
             cd_region = Some (lit ''Unknown''),
             cd_time_period = None,
             cd_restoration_confidence = None,
             cd_embeddings = None,
             cd_tags = [lit ''ocr'', script_type, language]\<rparr>
      in case embedding_model e of
           None \<Rightarrow> (Inl (AttributeError (lit ''encode'')), w1)
         | Some encode \<Rightarrow>
             (let embeddings = encode extracted_text;
                  document = document\<lparr>cd_embeddings := Some embeddings\<rparr>;
                  w2 = w1\<lparr>cultural_documents := cultural_documents w1 @ [document]\<rparr>
              in case os_remove file_path w2 of
                   Inl err \<Rightarrow> (Inl err, w2)
                 | Inr w3 \<Rightarrow>
                     (Inr (JObj [(lit ''document_id'', JStr (id' document)),
                                 (lit ''extracted_text'', JStr extracted_text),
                                 (lit ''script_type'', JStr script_type),
                                 (lit ''language'', JStr language),
                                 (lit ''status'', JStr (lit ''success''))]), w3)))"

definition upload_document_ocr ::
  "env \<Rightarrow> UploadFile \<Rightarrow> str \<Rightarrow> str \<Rightarrow> world \<Rightarrow> (exn + json) \<times> world" where
  "upload_document_ocr e file script_type language w =
     reraise_500 (lit ''OCR processing failed: '') (upload_document_ocr_body e file script_type language w)"

text \<open>
  \<open>POST /speech/upload\<close>. The staged file's path is stored as the record's
  \<open>audio_path\<close>; the handler has no \<open>os.remove\<close>.
\<close>

definition upload_folk_song_body ::
  "env \<Rightarrow> UploadFile \<Rightarrow> str \<Rightarrow> str \<Rightarrow> str \<Rightarrow> world \<Rightarrow> (exn + json) \<times> world" where
  "upload_folk_song_body e file performer region language w =
     (let (file_path, w1) = save_upload_file e file w;
          transcription = lit ''[Folk Song Transcription for '' @ filename file @ lit '']'' @ [10] @ song_sample;
          folk_song =
            \<lparr>id' = uuid4 e 1, created_at = utcnow e 0, updated_at = utcnow e 1,
             fs_title = filename file,
             fs_performer = Some performer,
             fs_region = region,
             fs_language = language,
             fs_transcription = Some transcription,
             fs_audio_path = Some file_path,
             fs_lyrics = None,
             fs_cultural_significance = None,
             fs_embeddings = None\<rparr>
      in case embedding_model e of
           None \<Rightarrow> (Inl (AttributeError (lit ''encode'')), w1)
         | Some encode \<Rightarrow>
             (let embeddings = encode transcription;
                  folk_song = folk_song\<lparr>fs_embeddings := Some embeddings\<rparr>;
                  w2 = w1\<lparr>folk_songs := folk_songs w1 @ [folk_song]\<rparr>
              in (Inr (JObj [(lit ''song_id'', JStr (id' folk_song)),
                             (lit ''transcription'', JStr transcription),
                             (lit ''performer'', JStr performer),
                             (lit ''region'', JStr region),
                             (lit ''status'', JStr (lit ''success''))]), w2)))"

definition upload_folk_song ::
  "env \<Rightarrow> UploadFile \<Rightarrow> str \<Rightarrow> str \<Rightarrow> str \<Rightarrow> world \<Rightarrow> (exn + json) \<times> world" where
  "upload_folk_song e file performer region language w =
     reraise_500 (lit ''Speech processing failed: '') (upload_folk_song_body e file performer region language w)"

text \<open>
  \<open>GET /documents\<close> and \<open>GET /folk-songs\<close>. Their docstrings say "Get all cultural
  documents" and "Get all folk songs"; the bodies are \<open>find({}).to_list(100)\<close>, which
  returns the first 100 records at most.
\<close>

definition get_documents :: "world \<Rightarrow> CulturalDocument list" where
  "get_documents w = take 100 (cultural_documents w)"

definition get_folk_songs :: "world \<Rightarrow> FolkSong list" where
  "get_folk_songs w = take 100 (folk_songs w)"

section \<open>Story generation\<close>

text \<open>
  \<open>str.title()\<close> on ASCII letters (the handler applies it to the story type, and comes
  there only with one of the three ASCII words below): a letter after a letter is
  lowered, any other letter is raised.
\<close>

fun title_from :: "bool \<Rightarrow> str \<Rightarrow> str" where
  "title_from prev [] = []"
| "title_from prev (c # cs) =
     (if 97 \<le> c \<and> c \<le> 122 then (if prev then c else c - 32) # title_from True cs
      else if 65 \<le> c \<and> c \<le> 90 then (if prev then c + 32 else c) # title_from True cs
      else c # title_from False cs)"

definition str_title :: "str \<Rightarrow> str" where
  "str_title s = title_from False s"

text \<open>How an f-string prints an optional field: \<open>None\<close> when it is absent.\<close>

fun fmt_opt :: "str option \<Rightarrow> str" where
  "fmt_opt None = lit ''None''"
| "fmt_opt (Some s) = s"

text \<open>
  The \<open>if\<close>/\<open>elif\<close> chain over the story type. It has no \<open>else\<close>: for any other
  story type the variable \<open>prompt\<close> is left unbound, which is the result \<open>None\<close> here.
\<close>

definition story_prompt :: "StoryRequest \<Rightarrow> CulturalDocument \<Rightarrow> str option" where
  "story_prompt request doc =
     (if sr_story_type request = lit ''summary'' then Some (join_lines
        [[],
         lit ''            Create an engaging summary of this cultural text in '' @ sr_target_language request @ lit '':'',
         lit ''            '',
         lit ''            Title: '' @ cd_title doc,
         lit ''            Text: '' @ fmt_opt (cd_original_text doc),
         lit ''            Language: '' @ cd_language doc,
         lit ''            '',
         lit ''            Make it accessible and interesting while preserving cultural authenticity.'',
         lit ''            ''])
      else if sr_story_type request = lit ''interactive'' then Some (join_lines
        [[],
         lit ''            Create an interactive story experience based on this cultural text:'',
         lit ''            '',
         lit ''            Title: '' @ cd_title doc,
         lit ''            Text: '' @ fmt_opt (cd_original_text doc),
         lit ''            '',
         lit ''            Include:'',
         lit ''            1. Narrative sections with choices'',
         lit ''            2. Cultural context explanations'',
         lit ''            3. Interactive elements for learning'',
         lit ''            4. Return as structured JSON with story segments and choices'',
         lit ''            ''])
      else if sr_story_type request = lit ''quiz'' then Some (join_lines
        [[],
         lit ''            Create educational quiz questions based on this cultural text:'',
         lit ''            '',
         lit ''            Title: '' @ cd_title doc,
         lit ''            Text: '' @ fmt_opt (cd_original_text doc),
         lit ''            '',
         lit ''            Generate 5-10 questions covering:'',
         lit ''            1. Cultural significance'',
         lit ''            2. Historical context'',
         lit ''            3. Language elements'',
         lit ''            4. Regional importance'',
         lit ''            '',
         lit ''            Return as JSON array with questions, options, and correct answers.'',
         lit ''            ''])
      else None)"

text \<open>
  \<open>POST /story/generate\<close>. The steps of the \<open>try\<close> block in order: look the document
  up by id and raise a 404 when there is none; build the client; choose the prompt; call
  the provider (reading the unbound \<open>prompt\<close> raises before the call); build, insert and
  answer with the story. The 404 is raised inside the \<open>try\<close>, so the \<open>except\<close> block
  of the handler catches it like any other exception.
\<close>

definition generate_story_body :: "env \<Rightarrow> StoryRequest \<Rightarrow> world \<Rightarrow> (exn + json) \<times> world" where
  "generate_story_body e request w =
     (case find (\<lambda>d. id' d = sr_document_id request) (cultural_documents w) of
        None \<Rightarrow> (Inl (HTTPException 404 (Detail (lit ''Document not found''))), w)
      | Some doc \<Rightarrow>
          (case get_llm_client e (lit ''openai'') (lit ''gpt-5'') of
             Inl err \<Rightarrow> (Inl err, w)
           | Inr chat \<Rightarrow>
               (case story_prompt request doc of
                  None \<Rightarrow> (Inl (UnboundLocalError (lit ''prompt'')), w)
                | Some prompt \<Rightarrow>
                    (case send_message e chat prompt w of
                       (Inl err, w1) \<Rightarrow> (Inl err, w1)
                     | (Inr response, w1) \<Rightarrow>
                         (let story =
                                \<lparr>id' = uuid4 e 1, created_at = utcnow e 0, updated_at = utcnow e 1,
                                 st_title = cd_title doc @ lit '' - '' @ str_title (sr_story_type request),
                                 st_content = response,
                                 st_source_document_id = Some (sr_document_id request),
                                 st_story_type = sr_story_type request,
                                 st_language = sr_target_language request,
                                 st_audio_narration = None,
                                 st_quiz_questions = None\<rparr>;
                              w2 = w1\<lparr>stories := stories w1 @ [story]\<rparr>
                          in (Inr (JObj [(lit ''story_id'', JStr (id' story)),
                                         (lit ''content'', JStr response),
                                         (lit ''story_type'', JStr (sr_story_type request)),
                                         (lit ''source_document'', JStr (cd_title doc))]), w2))))))"

definition generate_story :: "env \<Rightarrow> StoryRequest \<Rightarrow> world \<Rightarrow> (exn + json) \<times> world" where
  "generate_story e request w =
     reraise_500 (lit ''Story generation failed: '') (generate_story_body e request w)"

section \<open>Search\<close>

text \<open>
  \<open>cursor.limit(n)\<close> as the store's driver documents it: a limit of 0 is no limit, and a
  negative limit caps the result at its absolute value (in one batch; the size of a
  batch is not modelled).
\<close>

definition cursor_limit :: "int \<Rightarrow> 'a list \<Rightarrow> 'a list" where
  "cursor_limit n xs = (if n = 0 then xs else take (nat \<bar>n\<bar>) xs)"

text \<open>
  \<open>sorted(xs, key=k, reverse=True)\<close>: a stable sort by descending key (items with equal
  keys keep their order), which is a stable ascending sort by the negated key.
\<close>

definition sorted_reverse :: "('a \<Rightarrow> real) \<Rightarrow> 'a list \<Rightarrow> 'a list" where
  "sorted_reverse k xs = sort_key (\<lambda>x. - k x) xs"

text \<open>
  The sort key \<open>x["score"]\<close>. Every item the semantic branch builds has a float under
  that key; the last case is not reached from there.
\<close>

definition score_of :: "json \<Rightarrow> real" where
  "score_of x = (case json_get x (lit ''score'') of Some (JFloat r) \<Rightarrow> r | _ \<Rightarrow> 0)"

definition document_item :: "CulturalDocument \<Rightarrow> json" where
  "document_item doc =
     JObj [(lit ''type'', JStr (lit ''document'')),
           (lit ''id'', JStr (id' doc)),
           (lit ''title'', JStr (cd_title doc)),
           (lit ''content'', opt_json (cd_original_text doc)),
           (lit ''language'', JStr (cd_language doc)),
           (lit ''region'', opt_json (cd_region doc)),
           (lit ''score'', JFloat 0.8)]"

definition folk_song_item :: "FolkSong \<Rightarrow> json" where
  "folk_song_item song =
     JObj [(lit ''type'', JStr (lit ''folk_song'')),
           (lit ''id'', JStr (id' song)),
           (lit ''title'', JStr (fs_title song)),
           (lit ''content'', opt_json (fs_transcription song)),
           (lit ''performer'', opt_json (fs_performer song)),
           (lit ''region'', JStr (fs_region song)),
           (lit ''score'', JFloat 0.7)]"

text \<open>
  The keyword branch. The filter is an \<open>$or\<close> of three \<open>$regex\<close> conditions; a field
  that is \<open>None\<close> matches no pattern. The item slices the text:
  \<open>doc.get("original_text", "")[:200] + "..."\<close>, which raises for a text that is
  \<open>None\<close> (the key is there, so the default is not taken).
\<close>

definition keyword_match :: "(str \<Rightarrow> bool) \<Rightarrow> CulturalDocument \<Rightarrow> bool" where
  "keyword_match m doc =
     (m (cd_title doc)
      \<or> (case cd_original_text doc of None \<Rightarrow> False | Some t \<Rightarrow> m t)
      \<or> (case cd_description doc of None \<Rightarrow> False | Some t \<Rightarrow> m t))"

definition keyword_item :: "CulturalDocument \<Rightarrow> exn + json" where
  "keyword_item doc =
     (case cd_original_text doc of
        None \<Rightarrow> Inl (TypeError (lit ''NoneType''))
      | Some t \<Rightarrow>
          Inr (JObj [(lit ''type'', JStr (lit ''document'')),
                     (lit ''id'', JStr (id' doc)),
                     (lit ''title'', JStr (cd_title doc)),
                     (lit ''content'', JStr (take 200 t @ lit ''...'')),
                     (lit ''language'', JStr (cd_language doc)),
                     (lit ''region'', opt_json (cd_region doc))]))"

fun keyword_items :: "CulturalDocument list \<Rightarrow> exn + json list" where
  "keyword_items [] = Inr []"
| "keyword_items (doc # docs) =
     (case keyword_item doc of
        Inl err \<Rightarrow> Inl err
      | Inr r \<Rightarrow> (case keyword_items docs of Inl err \<Rightarrow> Inl err | Inr rs \<Rightarrow> Inr (r # rs)))"

definition search_response :: "SearchRequest \<Rightarrow> json list \<Rightarrow> json" where
  "search_response request results =
     JObj [(lit ''query'', JStr (sq_query request)),
           (lit ''search_type'', JStr (sq_search_type request)),
           (lit ''results'', JArr results),
           (lit ''total_found'', JInt (int (length results)))]"

text \<open>
  \<open>POST /search\<close>. Every search type other than \<open>"semantic"\<close> takes the keyword
  branch. The query embedding is computed and not used.
\<close>

definition search_content_body :: "env \<Rightarrow> SearchRequest \<Rightarrow> world \<Rightarrow> (exn + json) \<times> world" where
  "search_content_body e request w =
     (if sq_search_type request = lit ''semantic'' then
        (case embedding_model e of
           None \<Rightarrow> (Inl (AttributeError (lit ''encode'')), w)
         | Some encode \<Rightarrow>
             (let query_embedding = encode (sq_query request);
                  documents = cursor_limit (sq_limit request) (cultural_documents w);
                  songs = cursor_limit (sq_limit request) (folk_songs w);
                  all_content = map document_item documents @ map folk_song_item songs;
                  results = sorted_reverse score_of all_content
              in (Inr (search_response request results), w)))
      else
        (case regex e (sq_query request) of
           None \<Rightarrow> (Inl (OperationFailure (lit ''$regex'')), w)
         | Some m \<Rightarrow>
             (let documents = cursor_limit (sq_limit request)
                                (filter (keyword_match m) (cultural_documents w))
              in case keyword_items documents of
                   Inl err \<Rightarrow> (Inl err, w)
                 | Inr results \<Rightarrow> (Inr (search_response request results), w))))"

definition search_content :: "env \<Rightarrow> SearchRequest \<Rightarrow> world \<Rightarrow> (exn + json) \<times> world" where
  "search_content e request w =
     reraise_500 (lit ''Search failed: '') (search_content_body e request w)"

section \<open>Gamification\<close>

text \<open>
  A filter \<open>{field: v}\<close> on a stored document: the field equals \<open>v\<close>, or is an array
  that holds \<open>v\<close>.
\<close>

fun matches_eq :: "bson \<Rightarrow> bson option \<Rightarrow> bool" where
  "matches_eq v None = False"
| "matches_eq v (Some (BArr xs)) = (BArr xs = v \<or> v \<in> set xs)"
| "matches_eq v (Some x) = (x = v)"

definition doc_matches :: "str \<Rightarrow> bson \<Rightarrow> document \<Rightarrow> bool" where
  "doc_matches field v d = matches_eq v (map_of d field)"

text \<open>
  \<open>GET /user/{user_id}/progress\<close>: the stored record, or a new zero-valued one, which
  is inserted and returned. \<open>if not progress\<close> holds for no record and for an empty one.
\<close>

definition get_user_progress :: "env \<Rightarrow> str \<Rightarrow> world \<Rightarrow> document \<times> world" where
  "get_user_progress e user_id w =
     (let new_progress =
            UserProgress_dict
              \<lparr>id' = uuid4 e 0, created_at = utcnow e 0, updated_at = utcnow e 1,
               up_user_id = user_id,
               up_badges = [],
               up_points = 0,
               up_documents_explored = [],
               up_translations_contributed = 0,
               up_stories_completed = 0\<rparr>;
          created = (new_progress, w\<lparr>user_progress := user_progress w @ [new_progress]\<rparr>)
      in case find (doc_matches (lit ''user_id'') (BStr user_id)) (user_progress w) of
           None \<Rightarrow> created
         | Some progress \<Rightarrow> if progress = [] then created else (progress, w))"

text \<open>
  The two update operators of the badge award, on one document. \<open>$addToSet\<close> appends
  the value to an array that does not hold it and creates the array when the field is
  absent; \<open>$inc\<close> adds to a number and creates it when absent. On a field of another
  type the store rejects the write.
\<close>

definition addToSet :: "str \<Rightarrow> bson \<Rightarrow> document \<Rightarrow> exn + document" where
  "addToSet field v d =
     (case map_of d field of
        None \<Rightarrow> Inr (d @ [(field, BArr [v])])
      | Some (BArr xs) \<Rightarrow> Inr (if v \<in> set xs then d else AList.update field (BArr (xs @ [v])) d)
      | Some _ \<Rightarrow> Inl (WriteError field))"

definition inc :: "str \<Rightarrow> int \<Rightarrow> document \<Rightarrow> exn + document" where
  "inc field n d =
     (case map_of d field of
        None \<Rightarrow> Inr (d @ [(field, BInt n)])
      | Some (BInt m) \<Rightarrow> Inr (AList.update field (BInt (m + n)) d)
      | Some _ \<Rightarrow> Inl (WriteError field))"

text \<open>
  \<open>update_one(filter, update)\<close>: the first document that matches is replaced by its
  update; \<open>None\<close> when no document matches, an error when the store rejects the update.
\<close>

fun update_one ::
  "(document \<Rightarrow> bool) \<Rightarrow> (document \<Rightarrow> exn + document) \<Rightarrow> document list \<Rightarrow> exn + document list option" where
  "update_one P f [] = Inr None"
| "update_one P f (d # ds) =
     (if P d then (case f d of Inl err \<Rightarrow> Inl err | Inr d' \<Rightarrow> Inr (Some (d' # ds)))
      else (case update_one P f ds of
              Inl err \<Rightarrow> Inl err
            | Inr None \<Rightarrow> Inr None
            | Inr (Some ds') \<Rightarrow> Inr (Some (d # ds'))))"

text \<open>The update document \<open>{"$addToSet": {"badges": b}, "$inc": {"points": 10}}\<close>.\<close>

definition badge_update :: "str \<Rightarrow> document \<Rightarrow> exn + document" where
  "badge_update badge_name d =
     (case addToSet (lit ''badges'') (BStr badge_name) d of
        Inl err \<Rightarrow> Inl err
      | Inr d' \<Rightarrow> inc (lit ''points'') 10 d')"

text \<open>
  \<open>POST /user/{user_id}/badge/{badge_name}\<close>: \<open>update_one\<close> with \<open>upsert=True\<close>. With
  no record for the user, the store inserts the filter's fields with the update applied,
  that is a document of \<open>user_id\<close>, \<open>badges\<close> and \<open>points\<close>. The handler has no
  \<open>try\<close> block, and its answer is a fixed dict.
\<close>

definition award_badge :: "str \<Rightarrow> str \<Rightarrow> world \<Rightarrow> (exn + json) \<times> world" where
  \<open>award_badge user_id badge_name w =
     (let response = JObj [(lit ''message'', JStr (lit ''Badge '' @ [39] @ badge_name @ [39] @ lit '' awarded!'')),
                           (lit ''points'', JInt 10)]
      in case update_one (doc_matches (lit ''user_id'') (BStr user_id)) (badge_update badge_name)
                (user_progress w) of
           Inl err \<Rightarrow> (Inl err, w)
         | Inr (Some ds) \<Rightarrow> (Inr response, w\<lparr>user_progress := ds\<rparr>)
         | Inr None \<Rightarrow>
             (case badge_update badge_name [(lit ''user_id'', BStr user_id)] of
                Inl err \<Rightarrow> (Inl err, w)
              | Inr d \<Rightarrow> (Inr response, w\<lparr>user_progress := user_progress w @ [d]\<rparr>)))\<close>

section \<open>Observations on the ledger and on responses\<close>

text \<open>
  What a reader of the user-progress collection sees of one user: the first record that
  matches the user id (as \<open>find_one\<close> and \<open>update_one\<close> choose it), its points (0 when
  there is no record or no such field) and its badges (none likewise).
\<close>

definition doc_points :: "document \<Rightarrow> int" where
  "doc_points d = (case map_of d (lit ''points'') of Some (BInt p) \<Rightarrow> p | _ \<Rightarrow> 0)"

definition doc_badges :: "document \<Rightarrow> bson list" where
  "doc_badges d = (case map_of d (lit ''badges'') of Some (BArr xs) \<Rightarrow> xs | _ \<Rightarrow> [])"

definition user_record :: "str \<Rightarrow> world \<Rightarrow> document option" where
  "user_record user_id w = find (doc_matches (lit ''user_id'') (BStr user_id)) (user_progress w)"

definition points_of :: "str \<Rightarrow> world \<Rightarrow> int" where
  "points_of user_id w = (case user_record user_id w of None \<Rightarrow> 0 | Some d \<Rightarrow> doc_points d)"

definition badges_of :: "str \<Rightarrow> world \<Rightarrow> bson list" where
  "badges_of user_id w = (case user_record user_id w of None \<Rightarrow> [] | Some d \<Rightarrow> doc_badges d)"

text \<open>
  A ledger is well-formed when, in every record, \<open>badges\<close> is an array and \<open>points\<close>
  an integer wherever the field is present. Both handlers that write the collection keep
  it so; on any other ledger the store rejects the badge update.
\<close>

definition doc_ok :: "document \<Rightarrow> bool" where
  "doc_ok d =
     ((case map_of d (lit ''badges'') of None \<Rightarrow> True | Some (BArr xs) \<Rightarrow> True | Some _ \<Rightarrow> False)
      \<and> (case map_of d (lit ''points'') of None \<Rightarrow> True | Some (BInt p) \<Rightarrow> True | Some _ \<Rightarrow> False))"

definition ledger_ok :: "world \<Rightarrow> bool" where
  "ledger_ok w = list_all doc_ok (user_progress w)"

text \<open>The \<open>results\<close> of a search response.\<close>

definition results_of :: "json \<Rightarrow> json list" where
  "results_of resp = (case json_get resp (lit ''results'') of Some (JArr rs) \<Rightarrow> rs | _ \<Rightarrow> [])"

section \<open>Later and reachable states\<close>

text \<open>
  \<open>later w\<^sub>0 w\<close>: the state \<open>w\<close> is \<open>w\<^sub>0\<close> after any number of requests, in any
  environments, whether they succeeded or failed. (The \<open>GET\<close> endpoints that only read
  are left out.) The states the service can be in are those later than the empty one.
\<close>

inductive later :: "world \<Rightarrow> world \<Rightarrow> bool" where
  now: "later w0 w0"
| ocr_upload: "later w0 w \<Longrightarrow> later w0 (snd (upload_document_ocr e file script_type language w))"
| restore: "later w0 w \<Longrightarrow> later w0 (snd (restore_text e rq w))"
| translate: "later w0 w \<Longrightarrow> later w0 (snd (translate_text e tq w))"
| speech_upload: "later w0 w \<Longrightarrow> later w0 (snd (upload_folk_song e file performer region language w))"
| story: "later w0 w \<Longrightarrow> later w0 (snd (generate_story e sq w))"
| search: "later w0 w \<Longrightarrow> later w0 (snd (search_content e q w))"
| progress: "later w0 w \<Longrightarrow> later w0 (snd (get_user_progress e user_id w))"
| badge: "later w0 w \<Longrightarrow> later w0 (snd (award_badge user_id badge_name w))"

definition reachable :: "world \<Rightarrow> bool" where
  "reachable w = later empty_world w"

section \<open>Substring search, in the words of the specification\<close>

text \<open>
  "Case-insensitively contains the query as a substring": the text, with ASCII letters
  lowered, has the lowered query as a contiguous part.
\<close>

definition ascii_lower :: "nat \<Rightarrow> nat" where
  "ascii_lower c = (if 65 \<le> c \<and> c \<le> 90 then c + 32 else c)"

fun starts_with :: "str \<Rightarrow> str \<Rightarrow> bool" where
  "starts_with [] t = True"
| "starts_with (p # ps) [] = False"
| "starts_with (p # ps) (c # cs) = (p = c \<and> starts_with ps cs)"

fun contains_str :: "str \<Rightarrow> str \<Rightarrow> bool" where
  "contains_str q [] = starts_with q []"
| "contains_str q (c # cs) = (starts_with q (c # cs) \<or> contains_str q cs)"

definition icontains :: "str \<Rightarrow> str \<Rightarrow> bool" where
  "icontains q t = contains_str (map ascii_lower q) (map ascii_lower t)"

section \<open>Sample inputs\<close>

text \<open>
  A regular-expression engine for sample environments. It accepts the patterns made of
  literal characters and the wildcard \<open>.\<close>, which stands for any character but a
  newline, and searches without regard to the case of ASCII letters, as the store's
  engine does on these patterns; it rejects every pattern that has another
  metacharacter.
\<close>

definition atom_matches :: "nat \<Rightarrow> nat \<Rightarrow> bool" where
  "atom_matches p c = (if p = 46 then c \<noteq> 10 else ascii_lower p = ascii_lower c)"

fun match_here :: "str \<Rightarrow> str \<Rightarrow> bool" where
  "match_here [] t = True"
| "match_here (p # ps) [] = False"
| "match_here (p # ps) (c # cs) = (atom_matches p c \<and> match_here ps cs)"

fun match_anywhere :: "str \<Rightarrow> str \<Rightarrow> bool" where
  "match_anywhere ps [] = match_here ps []"
| "match_anywhere ps (c # cs) = (match_here ps (c # cs) \<or> match_anywhere ps cs)"

definition literal_dot_regex :: "str \<Rightarrow> (str \<Rightarrow> bool) option" where
  "literal_dot_regex p =
     (if list_ex (\<lambda>c. c \<in> set [92, 94, 36, 124, 63, 42, 43, 40, 41, 91, 93, 123, 125]) p
      then None else Some (match_anywhere p))"

text \<open>
  An environment in which the key is set, the embedding model is loaded, the provider
  answers every prompt with the same plain sentence, and \<open>json.loads\<close> rejects every
  text.
\<close>

definition plain_env :: env where
  "plain_env =
     \<lparr>EMERGENT_LLM_KEY = Some (lit ''sk-test''),
      embedding_model = Some (\<lambda>t. [0, 1]),
      llm = (\<lambda>provider model prompt. Inr (lit ''The verse wishes happiness to all.'')),
      json_loads = (\<lambda>t. None),
      uuid4 = (\<lambda>n. lit ''uuid-'' @ [48 + n]),
      utcnow = (\<lambda>n. 1000 + n),
      gettempdir = lit ''/tmp'',
      regex = literal_dot_regex\<rparr>"

text \<open>An uploaded manuscript and an uploaded recording.\<close>

definition manuscript :: UploadFile where
  "manuscript = \<lparr>filename = lit ''manuscript.txt'', content = [115, 97, 114, 118, 101]\<rparr>"

definition recording :: UploadFile where
  "recording = \<lparr>filename = lit ''folk_song.wav'', content = [82, 73, 70, 70]\<rparr>"

text \<open>The record that the OCR upload of the manuscript stores in \<open>plain_env\<close>.\<close>

definition manuscript_document :: CulturalDocument where
  "manuscript_document =
     \<lparr>id' = lit ''uuid-1'', created_at = 1000, updated_at = 1001,
      cd_title = lit ''manuscript.txt'',
      cd_description = None,
      cd_script_type = Some (lit ''devanagari''),
      cd_language = lit ''sanskrit'',
      cd_original_text = Some (lit ''[OCR Extracted Text from manuscript.txt]'' @ [10] @ ocr_sample),
      cd_restored_text = None,
      cd_translation = Some [],
      cd_region = Some (lit ''Unknown''),
      cd_time_period = None,
      cd_restoration_confidence = None,
      cd_embeddings = Some [0, 1],
      cd_tags = [lit ''ocr'', lit ''devanagari'', lit ''sanskrit'']\<rparr>"

text \<open>The record that the speech upload of the recording stores in \<open>plain_env\<close>.\<close>

definition recording_song :: FolkSong where
  "recording_song =
     \<lparr>id' = lit ''uuid-1'', created_at = 1000, updated_at = 1001,
      fs_title = lit ''folk_song.wav'',
      fs_performer = Some (lit ''Lata Mangeshkar''),
      fs_region = lit ''Maharashtra'',
      fs_language = lit ''marathi'',
      fs_transcription = Some (lit ''[Folk Song Transcription for folk_song.wav]'' @ [10] @ song_sample),
      fs_audio_path = Some (lit ''/tmp/parampara_uploads/uuid-0_folk_song.wav''),
      fs_lyrics = None,
      fs_cultural_significance = None,
      fs_embeddings = Some [0, 1]\<rparr>"

text \<open>
  A state that holds the one document, a state that holds the document and the song, and
  a state that holds a hundred older documents, the \<open>n\<close>-th uploaded in an environment
  that draws the uuid \<open>old-n\<close>.
\<close>

definition library_world :: world where
  "library_world = empty_world\<lparr>cultural_documents := [manuscript_document]\<rparr>"

definition archive_world :: world where
  "archive_world =
     empty_world\<lparr>cultural_documents := [manuscript_document], folk_songs := [recording_song],
       files := (files empty_world)(lit ''/tmp/parampara_uploads/uuid-0_folk_song.wav'' \<mapsto> [82, 73, 70, 70])\<rparr>"

definition older_env :: "nat \<Rightarrow> env" where
  "older_env n = plain_env\<lparr>uuid4 := (\<lambda>k. lit ''old-'' @ [n])\<rparr>"

definition older_document :: "nat \<Rightarrow> CulturalDocument" where
  "older_document n = manuscript_document\<lparr>id' := lit ''old-'' @ [n]\<rparr>"

definition full_world :: world where
  "full_world = empty_world\<lparr>cultural_documents := map older_document [0..<100]\<rparr>"

section \<open>Properties: basic facts\<close>

lemma lit_eq_iff [simp]: "lit a = lit b \<longleftrightarrow> a = b"
  unfolding lit_def by (simp add: inj_on_def)

lemma lit_eq_Nil_iff [simp]: "lit s = [] \<longleftrightarrow> s = []"
  by (simp add: lit_def)

section \<open>Properties: the sample states\<close>

text \<open>The upload of the sample manuscript, in any state.\<close>

lemma upload_manuscript:
  "upload_document_ocr plain_env manuscript (lit ''devanagari'') (lit ''sanskrit'') w =
     (Inr (JObj [(lit ''document_id'', JStr (lit ''uuid-1'')),
                 (lit ''extracted_text'', JStr (lit ''[OCR Extracted Text from manuscript.txt]'' @ [10] @ ocr_sample)),
                 (lit ''script_type'', JStr (lit ''devanagari'')),
                 (lit ''language'', JStr (lit ''sanskrit'')),
                 (lit ''status'', JStr (lit ''success''))]),
      w\<lparr>cultural_documents := cultural_documents w @ [manuscript_document],
         files := (files w)(lit ''/tmp/parampara_uploads/uuid-0_manuscript.txt'' := None)\<rparr>)"
  by (simp add: upload_document_ocr_def upload_document_ocr_body_def reraise_500_def
      save_upload_file_def os_remove_def Let_def plain_env_def manuscript_def manuscript_document_def lit_def)

text \<open>The upload of the sample recording, in any state.\<close>

lemma upload_recording:
  "upload_folk_song plain_env recording (lit ''Lata Mangeshkar'') (lit ''Maharashtra'') (lit ''marathi'') w =
     (Inr (JObj [(lit ''song_id'', JStr (lit ''uuid-1'')),
                 (lit ''transcription'', JStr (lit ''[Folk Song Transcription for folk_song.wav]'' @ [10] @ song_sample)),
                 (lit ''performer'', JStr (lit ''Lata Mangeshkar'')),
                 (lit ''region'', JStr (lit ''Maharashtra'')),
                 (lit ''status'', JStr (lit ''success''))]),
      w\<lparr>files := (files w)(lit ''/tmp/parampara_uploads/uuid-0_folk_song.wav'' \<mapsto> [82, 73, 70, 70]),
         folk_songs := folk_songs w @ [recording_song]\<rparr>)"
  by (simp add: upload_folk_song_def upload_folk_song_body_def reraise_500_def
      save_upload_file_def Let_def plain_env_def recording_def recording_song_def lit_def)

text \<open>The sample states are states of the service: each is reached by uploads.\<close>

lemma library_world_reachable: "reachable library_world"
proof -
  have "snd (upload_document_ocr plain_env manuscript (lit ''devanagari'') (lit ''sanskrit'') empty_world)
          = library_world"
    by (simp add: upload_manuscript library_world_def empty_world_def)
  moreover have "later empty_world
     (snd (upload_document_ocr plain_env manuscript (lit ''devanagari'') (lit ''sanskrit'') empty_world))"
    by (rule later.ocr_upload [OF later.now])
  ultimately show ?thesis by (simp add: reachable_def)
qed

lemma archive_world_reachable: "reachable archive_world"
proof -
  have "snd (upload_folk_song plain_env recording (lit ''Lata Mangeshkar'') (lit ''Maharashtra'')
               (lit ''marathi'') library_world) = archive_world"
    by (simp add: upload_recording library_world_def archive_world_def empty_world_def)
  moreover have "later empty_world
     (snd (upload_folk_song plain_env recording (lit ''Lata Mangeshkar'') (lit ''Maharashtra'')
               (lit ''marathi'') library_world))"
    using library_world_reachable unfolding reachable_def by (rule later.speech_upload)
  ultimately show ?thesis by (simp add: reachable_def)
qed

lemma upload_older_document:
  "snd (upload_document_ocr (older_env n) manuscript (lit ''devanagari'') (lit ''sanskrit'')
          (empty_world\<lparr>cultural_documents := docs\<rparr>))
     = empty_world\<lparr>cultural_documents := docs @ [older_document n]\<rparr>"
  by (simp add: upload_document_ocr_def upload_document_ocr_body_def reraise_500_def
      save_upload_file_def os_remove_def Let_def older_env_def plain_env_def manuscript_def
      manuscript_document_def older_document_def empty_world_def lit_def)

lemma older_documents_reachable:
  "reachable (empty_world\<lparr>cultural_documents := map older_document [0..<n]\<rparr>)"
proof (induction n)
  case 0
  have "empty_world\<lparr>cultural_documents := []\<rparr> = empty_world" by (simp add: empty_world_def)
  then show ?case by (simp add: reachable_def later.now)
next
  case (Suc n)
  from Suc.IH have "later empty_world
     (snd (upload_document_ocr (older_env n) manuscript (lit ''devanagari'') (lit ''sanskrit'')
          (empty_world\<lparr>cultural_documents := map older_document [0..<n]\<rparr>)))"
    unfolding reachable_def by (rule later.ocr_upload)
  then show ?case by (simp add: upload_older_document reachable_def)
qed

lemma full_world_reachable: "reachable full_world"
  unfolding full_world_def by (rule older_documents_reachable)

section \<open>Properties: restoration and translation\<close>

text \<open>
  Claim C1. For \<open>POST /restore\<close> and \<open>POST /translate\<close>: when the key is set, the
  provider answers the handler's prompt with a text \<open>raw\<close>, and \<open>json.loads\<close> raises on
  \<open>raw\<close>, the handler returns (status 200) the fallback dict: \<open>raw\<close> under
  \<open>restored_text\<close> with \<open>changes_made = ["AI restoration applied"]\<close> and
  \<open>confidence = 0.7\<close> for \<open>/restore\<close>, \<open>raw\<close> under \<open>translated_text\<close> with
  \<open>confidence = 0.8\<close> for \<open>/translate\<close>. No parse error leaves the handler.
\<close>

theorem malformed_provider_output_falls_back:
  "(EMERGENT_LLM_KEY e = Some k \<and> k \<noteq> []
      \<and> llm e (lit ''anthropic'') (lit ''claude-sonnet-4-20250514'') (restoration_prompt rq) = Inr raw
      \<and> json_loads e raw = None
    \<longrightarrow> fst (restore_text e rq w) =
          Inr (JObj [(lit ''restored_text'', JStr raw),
                     (lit ''changes_made'', JArr [JStr (lit ''AI restoration applied'')]),
                     (lit ''confidence'', JFloat 0.7),
                     (lit ''explanation'', JStr (lit ''Text restored using AI cultural knowledge''))])
        \<and> status_code (fst (restore_text e rq w)) = 200)
   \<and> (EMERGENT_LLM_KEY e = Some k \<and> k \<noteq> []
      \<and> llm e (lit ''gemini'') (lit ''gemini-2.0-flash'') (translation_prompt tq) = Inr raw
      \<and> json_loads e raw = None
    \<longrightarrow> fst (translate_text e tq w) =
          Inr (JObj [(lit ''translated_text'', JStr raw),
                     (lit ''cultural_notes'', JStr (lit ''AI translation with cultural awareness'')),
                     (lit ''confidence'', JFloat 0.8)])
        \<and> status_code (fst (translate_text e tq w)) = 200)"
  by (simp add: restore_text_def restore_text_body_def restore_result_def
      translate_text_def translate_text_body_def translate_result_def
      get_llm_client_def send_message_def reraise_500_def)

theorem malformed_provider_output_falls_back_witness:
  "fst (restore_text plain_env \<lparr>rr_text = lit ''sarve bhav_tu'', rr_language = lit ''sanskrit'', rr_context = None\<rparr> empty_world) =
          Inr (JObj [(lit ''restored_text'', JStr (lit ''The verse wishes happiness to all.'')),
                     (lit ''changes_made'', JArr [JStr (lit ''AI restoration applied'')]),
                     (lit ''confidence'', JFloat 0.7),
                     (lit ''explanation'', JStr (lit ''Text restored using AI cultural knowledge''))])
   \<and> fst (translate_text plain_env \<lparr>tr_text = lit ''satyam eva jayate'', tr_source_language = lit ''sanskrit'', tr_target_language = lit ''english''\<rparr> empty_world) =
          Inr (JObj [(lit ''translated_text'', JStr (lit ''The verse wishes happiness to all.'')),
                     (lit ''cultural_notes'', JStr (lit ''AI translation with cultural awareness'')),
                     (lit ''confidence'', JFloat 0.8)])"
  using malformed_provider_output_falls_back [of plain_env "lit ''sk-test''"
     "\<lparr>rr_text = lit ''sarve bhav_tu'', rr_language = lit ''sanskrit'', rr_context = None\<rparr>"
     "lit ''The verse wishes happiness to all.''" empty_world
     "\<lparr>tr_text = lit ''satyam eva jayate'', tr_source_language = lit ''sanskrit'', tr_target_language = lit ''english''\<rparr>"]
  by (simp add: plain_env_def lit_def)

section \<open>Properties: gamification\<close>

lemma map_of_snoc_fresh:
  "m k = None \<Longrightarrow> [k \<mapsto> v] ++ m = m(k \<mapsto> v)"
  by (auto simp: fun_eq_iff map_add_def split: option.splits)

lemma addToSet_ok:
  assumes "doc_ok d"
  shows "\<exists>d'. addToSet (lit ''badges'') v d = Inr d'
     \<and> map_of d' = (map_of d)(lit ''badges'' \<mapsto>
           BArr (if v \<in> set (doc_badges d) then doc_badges d else doc_badges d @ [v]))"
proof (cases "map_of d (lit ''badges'')")
  case None
  then show ?thesis by (simp add: addToSet_def doc_badges_def map_of_snoc_fresh)
next
  case (Some x)
  with assms obtain xs where x: "x = BArr xs" by (cases x) (auto simp: doc_ok_def)
  show ?thesis using Some x
    by (auto simp: addToSet_def doc_badges_def update_conv' fun_eq_iff)
qed

lemma inc_ok:
  assumes "case map_of d (lit ''points'') of None \<Rightarrow> True | Some (BInt p) \<Rightarrow> True | Some _ \<Rightarrow> False"
  shows "\<exists>d'. inc (lit ''points'') n d = Inr d'
     \<and> map_of d' = (map_of d)(lit ''points'' \<mapsto> BInt (doc_points d + n))"
proof (cases "map_of d (lit ''points'')")
  case None
  then show ?thesis by (simp add: inc_def doc_points_def map_of_snoc_fresh)
next
  case (Some x)
  with assms obtain p where x: "x = BInt p" by (cases x) auto
  show ?thesis using Some x
    by (auto simp: inc_def doc_points_def update_conv' fun_eq_iff)
qed

lemma badge_update_ok:
  assumes "doc_ok d"
  shows "\<exists>d'. badge_update b d = Inr d'
     \<and> map_of d' = (map_of d)
          (lit ''badges'' \<mapsto> BArr (if BStr b \<in> set (doc_badges d) then doc_badges d else doc_badges d @ [BStr b]),
           lit ''points'' \<mapsto> BInt (doc_points d + 10))"
proof -
  from addToSet_ok [OF assms, of "BStr b"] obtain d1 where
    d1: "addToSet (lit ''badges'') (BStr b) d = Inr d1"
    and m1: "map_of d1 = (map_of d)(lit ''badges'' \<mapsto>
           BArr (if BStr b \<in> set (doc_badges d) then doc_badges d else doc_badges d @ [BStr b]))"
    by blast
  have p1: "map_of d1 (lit ''points'') = map_of d (lit ''points'')" by (simp add: m1)
  have "case map_of d1 (lit ''points'') of None \<Rightarrow> True | Some (BInt p) \<Rightarrow> True | Some _ \<Rightarrow> False"
    using assms by (simp add: p1 doc_ok_def)
  from inc_ok [OF this, of 10] obtain d2 where
    d2: "inc (lit ''points'') 10 d1 = Inr d2"
    and m2: "map_of d2 = (map_of d1)(lit ''points'' \<mapsto> BInt (doc_points d1 + 10))"
    by blast
  have "doc_points d1 = doc_points d" by (simp add: doc_points_def p1)
  with d1 d2 m1 m2 show ?thesis by (simp add: badge_update_def)
qed

lemma update_one_no_match:
  "find P ds = None \<Longrightarrow> update_one P f ds = Inr None"
  by (induction ds) (auto split: if_splits)

lemma update_one_match:
  "find P ds = Some d \<Longrightarrow> f d = Inr d' \<Longrightarrow> P d' \<Longrightarrow>
   \<exists>ds'. update_one P f ds = Inr (Some ds') \<and> find P ds' = Some d' \<and> length ds' = length ds"
  by (induction ds) (auto split: if_splits)

lemma badge_update_total:
  assumes "doc_ok d"
  shows "\<exists>d'. badge_update b d = Inr d'"
  using badge_update_ok [OF assms, of b] by (elim exE conjE) (rule exI)

lemma badge_update_map:
  assumes "doc_ok d" and "badge_update b d = Inr d'"
  shows "map_of d' = (map_of d)
          (lit ''badges'' \<mapsto> BArr (if BStr b \<in> set (doc_badges d) then doc_badges d else doc_badges d @ [BStr b]),
           lit ''points'' \<mapsto> BInt (doc_points d + 10))"
  using badge_update_ok [OF assms(1), of b] assms(2) by (elim exE conjE) simp

lemma badge_update_points:
  "doc_ok d \<Longrightarrow> badge_update b d = Inr d' \<Longrightarrow> doc_points d' = doc_points d + 10"
  by (simp add: doc_points_def [of d'] badge_update_map)

lemma badge_update_badges:
  "doc_ok d \<Longrightarrow> badge_update b d = Inr d' \<Longrightarrow>
   doc_badges d' = (if BStr b \<in> set (doc_badges d) then doc_badges d else doc_badges d @ [BStr b])"
  by (simp add: doc_badges_def [of d'] badge_update_map)

lemma badge_update_user:
  "doc_ok d \<Longrightarrow> badge_update b d = Inr d' \<Longrightarrow>
   doc_matches (lit ''user_id'') v d' = doc_matches (lit ''user_id'') v d"
  by (simp add: doc_matches_def badge_update_map)

lemma badge_update_doc_ok:
  "doc_ok d \<Longrightarrow> badge_update b d = Inr d' \<Longrightarrow> doc_ok d'"
  by (simp add: doc_ok_def [of d'] badge_update_map)

lemma find_append_fresh:
  "find P xs = None \<Longrightarrow> P x \<Longrightarrow> find P (xs @ [x]) = Some x"
  by (induction xs) (auto split: if_splits)

lemma find_Some_holds: "find P xs = Some x \<Longrightarrow> x \<in> set xs \<and> P x"
  by (induction xs) (auto split: if_splits)

lemma update_one_keeps:
  "list_all Q ds \<Longrightarrow> (\<And>d d'. Q d \<Longrightarrow> f d = Inr d' \<Longrightarrow> Q d') \<Longrightarrow>
   update_one P f ds = Inr (Some ds') \<Longrightarrow> list_all Q ds'"
proof (induction ds arbitrary: ds')
  case Nil
  then show ?case by simp
next
  case (Cons d ds)
  show ?case
  proof (cases "P d")
    case True
    with Cons.prems(3) obtain d' where fd: "f d = Inr d'" and e: "ds' = d' # ds"
      by (auto split: sum.splits)
    from Cons.prems(1) have "Q d" and "list_all Q ds" by simp_all
    with Cons.prems(2) [OF \<open>Q d\<close> fd] e show ?thesis by simp
  next
    case False
    with Cons.prems(3) obtain ds1 where u: "update_one P f ds = Inr (Some ds1)" and e: "ds' = d # ds1"
      by (auto split: sum.splits option.splits)
    from Cons.prems(1) have "Q d" and "list_all Q ds" by simp_all
    from Cons.IH [OF \<open>list_all Q ds\<close> Cons.prems(2) u] have "list_all Q ds1" by simp
    with \<open>Q d\<close> e show ?thesis by simp
  qed
qed

text \<open>What one award does to the record of its user, in a well-formed ledger.\<close>

lemma award_badge_effect:
  assumes ok: "ledger_ok w"
  shows "fst (award_badge u b w) =
           Inr (JObj [(lit ''message'', JStr (lit ''Badge '' @ [39] @ b @ [39] @ lit '' awarded!'')),
                      (lit ''points'', JInt 10)])
     \<and> points_of u (snd (award_badge u b w)) = points_of u w + 10
     \<and> badges_of u (snd (award_badge u b w)) =
         (if BStr b \<in> set (badges_of u w) then badges_of u w else badges_of u w @ [BStr b])
     \<and> ledger_ok (snd (award_badge u b w))"
proof (cases "user_record u w")
  case None
  let ?d0 = "[(lit ''user_id'', BStr u)]"
  have ok0: "doc_ok ?d0" by (simp add: doc_ok_def)
  from badge_update_total [OF ok0, of b] obtain d' where d': "badge_update b ?d0 = Inr d'" ..
  let ?w' = "w\<lparr>user_progress := user_progress w @ [d']\<rparr>"
  from None have nf: "find (doc_matches (lit ''user_id'') (BStr u)) (user_progress w) = None"
    by (simp add: user_record_def)
  have m: "doc_matches (lit ''user_id'') (BStr u) d'"
    by (simp only: badge_update_user [OF ok0 d']) (simp add: doc_matches_def)
  have r: "user_record u ?w' = Some d'"
    by (simp add: user_record_def find_append_fresh nf m)
  have a: "award_badge u b w =
           (Inr (JObj [(lit ''message'', JStr (lit ''Badge '' @ [39] @ b @ [39] @ lit '' awarded!'')),
                       (lit ''points'', JInt 10)]), ?w')"
    by (simp add: award_badge_def update_one_no_match [OF nf] d')
  have p': "points_of u ?w' = points_of u w + 10"
    by (simp add: points_of_def None r badge_update_points [OF ok0 d'] doc_points_def [of ?d0])
  have b': "badges_of u ?w' = (if BStr b \<in> set (badges_of u w) then badges_of u w else badges_of u w @ [BStr b])"
    by (simp add: badges_of_def None r badge_update_badges [OF ok0 d'] doc_badges_def [of ?d0])
  have l': "ledger_ok ?w'"
    using ok badge_update_doc_ok [OF ok0 d'] by (simp add: ledger_ok_def)
  show ?thesis unfolding a fst_conv snd_conv using p' b' l' by (intro conjI refl)
next
  case (Some d)
  then have f: "find (doc_matches (lit ''user_id'') (BStr u)) (user_progress w) = Some d"
    by (simp add: user_record_def)
  from find_Some_holds [OF f] have din: "d \<in> set (user_progress w)"
    and dm: "doc_matches (lit ''user_id'') (BStr u) d" by simp_all
  from ok din have okd: "doc_ok d" by (simp add: ledger_ok_def list_all_iff)
  from badge_update_total [OF okd, of b] obtain d' where d': "badge_update b d = Inr d'" ..
  have m: "doc_matches (lit ''user_id'') (BStr u) d'"
    using dm by (simp add: badge_update_user [OF okd d'])
  from update_one_match [where P = "doc_matches (lit ''user_id'') (BStr u)" and f = "badge_update b", OF f d' m]
  obtain ds' where
    u1: "update_one (doc_matches (lit ''user_id'') (BStr u)) (badge_update b) (user_progress w) = Inr (Some ds')"
    and f': "find (doc_matches (lit ''user_id'') (BStr u)) ds' = Some d'"
    by (elim exE conjE)
  let ?w' = "w\<lparr>user_progress := ds'\<rparr>"
  have r: "user_record u ?w' = Some d'" by (simp add: user_record_def f')
  have all: "list_all doc_ok (user_progress w)" using ok by (simp add: ledger_ok_def)
  have keep: "list_all doc_ok ds'"
  proof (rule update_one_keeps [where Q = doc_ok and f = "badge_update b", OF all _ u1])
    fix x x' assume "doc_ok x" and "badge_update b x = Inr x'"
    then show "doc_ok x'" by (rule badge_update_doc_ok)
  qed
  have a: "award_badge u b w =
           (Inr (JObj [(lit ''message'', JStr (lit ''Badge '' @ [39] @ b @ [39] @ lit '' awarded!'')),
                       (lit ''points'', JInt 10)]), ?w')"
    by (simp add: award_badge_def u1)
  have p': "points_of u ?w' = points_of u w + 10"
    by (simp add: points_of_def Some r badge_update_points [OF okd d'])
  have b': "badges_of u ?w' = (if BStr b \<in> set (badges_of u w) then badges_of u w else badges_of u w @ [BStr b])"
    by (simp add: badges_of_def Some r badge_update_badges [OF okd d'])
  have l': "ledger_ok ?w'" using keep by (simp add: ledger_ok_def)
  show ?thesis unfolding a fst_conv snd_conv using p' b' l' by (intro conjI refl)
qed

text \<open>No handler but the two of the ledger writes the user-progress collection.\<close>

lemma reraise_500_snd [simp]: "snd (reraise_500 prefix r) = snd r"
  by (cases r) (auto simp: reraise_500_def split: sum.splits)

lemma send_message_user_progress:
  "user_progress (snd (send_message e c prompt w)) = user_progress w"
  by (simp add: send_message_def Let_def split: sum.splits)

lemma restore_text_user_progress:
  "user_progress (snd (restore_text e rq w)) = user_progress w"
  by (simp add: restore_text_def restore_text_body_def send_message_def Let_def split: sum.splits prod.splits)

lemma translate_text_user_progress:
  "user_progress (snd (translate_text e tq w)) = user_progress w"
  by (simp add: translate_text_def translate_text_body_def send_message_def Let_def split: sum.splits prod.splits)

lemma upload_document_ocr_user_progress:
  "user_progress (snd (upload_document_ocr e file script_type language w)) = user_progress w"
  by (simp add: upload_document_ocr_def upload_document_ocr_body_def save_upload_file_def os_remove_def
      Let_def split: sum.splits prod.splits option.splits)

lemma upload_folk_song_user_progress:
  "user_progress (snd (upload_folk_song e file performer region language w)) = user_progress w"
  by (simp add: upload_folk_song_def upload_folk_song_body_def save_upload_file_def
      Let_def split: sum.splits prod.splits option.splits)

lemma generate_story_user_progress:
  "user_progress (snd (generate_story e rq w)) = user_progress w"
  by (simp add: generate_story_def generate_story_body_def send_message_def
      Let_def split: sum.splits prod.splits option.splits)

lemma search_content_snd: "snd (search_content e q w) = w"
  by (simp add: search_content_def search_content_body_def Let_def split: sum.splits option.splits)

lemma UserProgress_dict_ok: "doc_ok (UserProgress_dict p)"
  by (simp add: doc_ok_def UserProgress_dict_def)

lemma get_user_progress_ledger_ok:
  "ledger_ok w \<Longrightarrow> ledger_ok (snd (get_user_progress e u w))"
  by (simp add: get_user_progress_def ledger_ok_def UserProgress_dict_ok Let_def split: option.splits)

text \<open>Requests keep the ledger well-formed, so every reachable state has such a ledger.\<close>

lemma later_ledger_ok: "later w0 w \<Longrightarrow> ledger_ok w0 \<Longrightarrow> ledger_ok w"
proof (induction rule: later.induct)
  case (now w0)
  then show ?case by simp
next
  case (ocr_upload w0 w e upload script_type language)
  then show ?case by (simp add: ledger_ok_def upload_document_ocr_user_progress)
next
  case (restore w0 w e rq)
  then show ?case by (simp add: ledger_ok_def restore_text_user_progress)
next
  case (translate w0 w e tq)
  then show ?case by (simp add: ledger_ok_def translate_text_user_progress)
next
  case (speech_upload w0 w e upload performer region language)
  then show ?case by (simp add: ledger_ok_def upload_folk_song_user_progress)
next
  case (story w0 w e sq)
  then show ?case by (simp add: ledger_ok_def generate_story_user_progress)
next
  case (search w0 w e q)
  then show ?case by (simp add: search_content_snd)
next
  case (progress w0 w e user_id)
  then show ?case by (simp add: get_user_progress_ledger_ok)
next
  case (badge w0 w user_id badge_name)
  then show ?case using award_badge_effect [of w user_id badge_name] by simp
qed

lemma reachable_ledger_ok: "reachable w \<Longrightarrow> ledger_ok w"
  unfolding reachable_def
  by (erule later_ledger_ok) (simp add: ledger_ok_def empty_world_def)

text \<open>
  Claim C4. On a well-formed ledger (every reachable one is), each call of
  \<open>POST /user/{u}/badge/{b}\<close> succeeds and adds exactly 10 to the stored points of
  \<open>u\<close>, so points never decrease and a repeated award adds points again; the badges of
  \<open>u\<close> afterwards are the badges before together with \<open>b\<close>; an award of a badge the
  user already has leaves the badge list as it was; and a badge list without duplicates
  stays without duplicates.
\<close>

theorem award_badge_adds_ten_points_and_keeps_badges_a_set:
  assumes "ledger_ok w"
  shows "status_code (fst (award_badge u b w)) = 200
     \<and> points_of u (snd (award_badge u b w)) = points_of u w + 10
     \<and> set (badges_of u (snd (award_badge u b w))) = insert (BStr b) (set (badges_of u w))
     \<and> (BStr b \<in> set (badges_of u w) \<longrightarrow> badges_of u (snd (award_badge u b w)) = badges_of u w)
     \<and> (distinct (badges_of u w) \<longrightarrow> distinct (badges_of u (snd (award_badge u b w))))"
proof -
  from award_badge_effect [OF assms, of u b]
  have r: "fst (award_badge u b w) =
           Inr (JObj [(lit ''message'', JStr (lit ''Badge '' @ [39] @ b @ [39] @ lit '' awarded!'')),
                      (lit ''points'', JInt 10)])"
    and p: "points_of u (snd (award_badge u b w)) = points_of u w + 10"
    and bs: "badges_of u (snd (award_badge u b w)) =
         (if BStr b \<in> set (badges_of u w) then badges_of u w else badges_of u w @ [BStr b])"
    by simp_all
  have "status_code (fst (award_badge u b w)) = 200" by (simp add: r)
  moreover have "set (badges_of u (snd (award_badge u b w))) = insert (BStr b) (set (badges_of u w))"
    by (auto simp: bs)
  moreover have "BStr b \<in> set (badges_of u w) \<longrightarrow> badges_of u (snd (award_badge u b w)) = badges_of u w"
    by (simp add: bs)
  moreover have "distinct (badges_of u w) \<longrightarrow> distinct (badges_of u (snd (award_badge u b w)))"
    by (simp add: bs)
  ultimately show ?thesis using p by simp
qed

theorem award_badge_adds_ten_points_and_keeps_badges_a_set_witness:
  "ledger_ok (snd (award_badge (lit ''u1'') (lit ''Explorer'') empty_world))
   \<and> points_of (lit ''u1'') (snd (award_badge (lit ''u1'') (lit ''Explorer'') empty_world)) = 10
   \<and> points_of (lit ''u1'')
        (snd (award_badge (lit ''u1'') (lit ''Explorer'')
           (snd (award_badge (lit ''u1'') (lit ''Explorer'') empty_world)))) = 20
   \<and> badges_of (lit ''u1'')
        (snd (award_badge (lit ''u1'') (lit ''Explorer'')
           (snd (award_badge (lit ''u1'') (lit ''Explorer'') empty_world)))) = [BStr (lit ''Explorer'')]"
proof -
  let ?w1 = "snd (award_badge (lit ''u1'') (lit ''Explorer'') empty_world)"
  have w1: "?w1 = empty_world\<lparr>user_progress :=
      [[(lit ''user_id'', BStr (lit ''u1'')), (lit ''badges'', BArr [BStr (lit ''Explorer'')]),
        (lit ''points'', BInt 10)]]\<rparr>"
    by (simp add: award_badge_def badge_update_def addToSet_def inc_def empty_world_def)
  have ok: "ledger_ok ?w1"
    by (simp add: w1 ledger_ok_def doc_ok_def)
  have p1: "points_of (lit ''u1'') ?w1 = 10"
    by (simp add: w1 points_of_def user_record_def doc_matches_def doc_points_def)
  have b1: "badges_of (lit ''u1'') ?w1 = [BStr (lit ''Explorer'')]"
    by (simp add: w1 badges_of_def user_record_def doc_matches_def doc_badges_def)
  from award_badge_adds_ten_points_and_keeps_badges_a_set [OF ok, of "lit ''u1''" "lit ''Explorer''"]
  show ?thesis using ok p1 b1 by simp
qed

text \<open>
  Claim C10. The body that \<open>POST /user/{user_id}/badge/{badge_name}\<close> answers with
  reports \<open>points = 10\<close>, the increment of one call, whatever the stored record holds;
  and on every well-formed ledger the handler does answer, with the message and that
  constant.
\<close>

theorem award_badge_response_reports_the_increment:
  "(fst (award_badge u b w) = Inr r \<longrightarrow> json_get r (lit ''points'') = Some (JInt 10))
   \<and> (ledger_ok w \<longrightarrow>
        fst (award_badge u b w) =
          Inr (JObj [(lit ''message'', JStr (lit ''Badge '' @ [39] @ b @ [39] @ lit '' awarded!'')),
                     (lit ''points'', JInt 10)]))"
proof
  show "fst (award_badge u b w) = Inr r \<longrightarrow> json_get r (lit ''points'') = Some (JInt 10)"
    by (auto simp: award_badge_def Let_def split: sum.splits option.splits)
next
  show "ledger_ok w \<longrightarrow>
        fst (award_badge u b w) =
          Inr (JObj [(lit ''message'', JStr (lit ''Badge '' @ [39] @ b @ [39] @ lit '' awarded!'')),
                     (lit ''points'', JInt 10)])"
    using award_badge_effect [of w u b] by simp
qed

theorem award_badge_response_reports_the_increment_witness:
  "points_of (lit ''u1'') (snd (award_badge (lit ''u1'') (lit ''Scholar'')
       (snd (award_badge (lit ''u1'') (lit ''Explorer'') empty_world)))) = 20
   \<and> fst (award_badge (lit ''u1'') (lit ''Scholar'')
         (snd (award_badge (lit ''u1'') (lit ''Explorer'') empty_world))) =
       Inr (JObj [(lit ''message'', JStr (lit ''Badge '' @ [39] @ lit ''Scholar'' @ [39] @ lit '' awarded!'')),
                  (lit ''points'', JInt 10)])"
proof -
  let ?w1 = "snd (award_badge (lit ''u1'') (lit ''Explorer'') empty_world)"
  have w1: "?w1 = empty_world\<lparr>user_progress :=
      [[(lit ''user_id'', BStr (lit ''u1'')), (lit ''badges'', BArr [BStr (lit ''Explorer'')]),
        (lit ''points'', BInt 10)]]\<rparr>"
    by (simp add: award_badge_def badge_update_def addToSet_def inc_def empty_world_def)
  have ok: "ledger_ok ?w1"
    by (simp add: w1 ledger_ok_def doc_ok_def)
  have p2: "points_of (lit ''u1'') (snd (award_badge (lit ''u1'') (lit ''Scholar'') ?w1)) = 20"
    by (simp add: w1 award_badge_def badge_update_def addToSet_def inc_def empty_world_def
        points_of_def user_record_def doc_matches_def doc_points_def)
  from award_badge_response_reports_the_increment [of "lit ''u1''" "lit ''Scholar''" ?w1]
  show ?thesis using ok p2 by simp
qed

text \<open>
  The records that are built from the models carry the three base fields: the id is the
  uuid drawn for the record, the timestamps are the two clock readings.
\<close>

lemma stored_document_has_base_fields:
  assumes "upload_document_ocr e f script_type language w = (Inr resp, w')"
  shows "\<exists>doc. cultural_documents w' = cultural_documents w @ [doc]
     \<and> id' doc = uuid4 e 1 \<and> created_at doc = utcnow e 0 \<and> updated_at doc = utcnow e 1"
  using assms
  by (auto simp: upload_document_ocr_def upload_document_ocr_body_def reraise_500_def
      save_upload_file_def os_remove_def Let_def split: option.splits sum.splits if_splits)

lemma stored_song_has_base_fields:
  assumes "upload_folk_song e f performer region language w = (Inr resp, w')"
  shows "\<exists>song. folk_songs w' = folk_songs w @ [song]
     \<and> id' song = uuid4 e 1 \<and> created_at song = utcnow e 0 \<and> updated_at song = utcnow e 1"
  using assms
  by (auto simp: upload_folk_song_def upload_folk_song_body_def reraise_500_def
      save_upload_file_def Let_def split: option.splits sum.splits if_splits)

lemma stored_story_has_base_fields:
  assumes "generate_story e rq w = (Inr resp, w')"
  shows "\<exists>story. stories w' = stories w @ [story]
     \<and> id' story = uuid4 e 1 \<and> created_at story = utcnow e 0 \<and> updated_at story = utcnow e 1"
  using assms
  by (auto simp: generate_story_def generate_story_body_def reraise_500_def send_message_def
      Let_def split: option.splits sum.splits prod.splits if_splits)

lemma stored_progress_has_base_fields:
  assumes "user_record u w = None"
  shows "\<exists>d. user_progress (snd (get_user_progress e u w)) = user_progress w @ [d]
     \<and> map_of d (lit ''id'') = Some (BStr (uuid4 e 0))
     \<and> map_of d (lit ''created_at'') = Some (BDate (utcnow e 0))
     \<and> map_of d (lit ''updated_at'') = Some (BDate (utcnow e 1))"
  using assms
  by (simp add: get_user_progress_def user_record_def UserProgress_dict_def Let_def)

text \<open>
  The record that the badge award inserts for a user without one, next to the record
  that the progress endpoint inserts for the same user.
\<close>

lemma progress_record_has_base_fields:
  "user_progress (snd (get_user_progress plain_env (lit ''u1'') empty_world)) =
     [[(lit ''id'', BStr (lit ''uuid-0'')),
       (lit ''created_at'', BDate 1000),
       (lit ''updated_at'', BDate 1001),
       (lit ''user_id'', BStr (lit ''u1'')),
       (lit ''badges'', BArr []),
       (lit ''points'', BInt 0),
       (lit ''documents_explored'', BArr []),
       (lit ''translations_contributed'', BInt 0),
       (lit ''stories_completed'', BInt 0)]]"
  by (simp add: get_user_progress_def UserProgress_dict_def Let_def plain_env_def empty_world_def lit_def)

text \<open>
  Claim C8, at a failing input. The first badge award for a user without a record
  (\<open>POST /user/u1/badge/Explorer\<close> on the empty state) persists a record of exactly
  \<open>user_id\<close>, \<open>badges\<close> and \<open>points\<close>: it carries no \<open>id\<close>, no \<open>created_at\<close> and no
  \<open>updated_at\<close>, which the claim says every persisted record carries.
\<close>

theorem upserted_progress_record_lacks_base_fields:
  "user_progress (snd (award_badge (lit ''u1'') (lit ''Explorer'') empty_world)) =
     [[(lit ''user_id'', BStr (lit ''u1'')),
       (lit ''badges'', BArr [BStr (lit ''Explorer'')]),
       (lit ''points'', BInt 10)]]
   \<and> list_all (\<lambda>d. map_of d (lit ''id'') = None \<and> map_of d (lit ''created_at'') = None
                  \<and> map_of d (lit ''updated_at'') = None)
        (user_progress (snd (award_badge (lit ''u1'') (lit ''Explorer'') empty_world)))"
  by (simp add: award_badge_def badge_update_def addToSet_def inc_def empty_world_def)

text \<open>The same holds for any user and badge, in any state with no record for the user.\<close>

lemma upserted_record_fields:
  assumes "user_record u w = None"
  shows "user_progress (snd (award_badge u b w)) =
     user_progress w @ [[(lit ''user_id'', BStr u), (lit ''badges'', BArr [BStr b]), (lit ''points'', BInt 10)]]"
  using assms
  by (simp add: award_badge_def badge_update_def addToSet_def inc_def user_record_def update_one_no_match)

section \<open>Properties: story generation\<close>

lemma generate_story_unknown_document:
  assumes "find (\<lambda>d. id' d = sr_document_id rq) (cultural_documents w) = None"
  shows "generate_story e rq w =
     (Inl (HTTPException 500 (Failed (lit ''Story generation failed: '')
        (HTTPException 404 (Detail (lit ''Document not found''))))), w)"
  using assms by (simp add: generate_story_def generate_story_body_def reraise_500_def)

text \<open>
  Claim C2, at a failing input: the state after the upload of one manuscript, and a
  document id that no stored document has. \<open>POST /story/generate\<close> makes no provider
  call and writes nothing (the state is unchanged), but the status it answers with is
  500, not 404: the 404 raised inside the \<open>try\<close> block is caught by the handler's own
  \<open>except\<close> and raised again as a 500.
\<close>

theorem unknown_document_is_answered_with_500:
  "reachable library_world
   \<and> generate_story plain_env
     \<lparr>sr_document_id = lit ''no-such-id'', sr_story_type = lit ''summary'', sr_target_language = lit ''english''\<rparr>
     library_world =
     (Inl (HTTPException 500 (Failed (lit ''Story generation failed: '')
        (HTTPException 404 (Detail (lit ''Document not found''))))), library_world)
   \<and> status_code (fst (generate_story plain_env
     \<lparr>sr_document_id = lit ''no-such-id'', sr_story_type = lit ''summary'', sr_target_language = lit ''english''\<rparr>
     library_world)) = 500"
proof -
  have "find (\<lambda>d. id' d = lit ''no-such-id'') (cultural_documents library_world) = None"
    by (simp add: library_world_def manuscript_document_def)
  then show ?thesis
    by (simp add: generate_story_unknown_document library_world_reachable)
qed

text \<open>
  A story type outside the three: no prompt, and whatever else holds of the request, a
  500 with the state unchanged.
\<close>

lemma story_prompt_unknown_type:
  "sr_story_type rq \<noteq> lit ''summary'' \<Longrightarrow> sr_story_type rq \<noteq> lit ''interactive'' \<Longrightarrow>
   sr_story_type rq \<noteq> lit ''quiz'' \<Longrightarrow> story_prompt rq doc = None"
  by (simp add: story_prompt_def)

lemma generate_story_unknown_story_type:
  assumes "sr_story_type rq \<noteq> lit ''summary''" and "sr_story_type rq \<noteq> lit ''interactive''"
    and "sr_story_type rq \<noteq> lit ''quiz''"
  shows "snd (generate_story e rq w) = w \<and> status_code (fst (generate_story e rq w)) = 500"
  using assms
  by (simp add: generate_story_def generate_story_body_def reraise_500_def story_prompt_unknown_type
      split: option.splits sum.splits)

lemma generate_story_unbound_prompt:
  assumes "sr_story_type rq \<noteq> lit ''summary''" and "sr_story_type rq \<noteq> lit ''interactive''"
    and "sr_story_type rq \<noteq> lit ''quiz''"
    and "find (\<lambda>d. id' d = sr_document_id rq) (cultural_documents w) = Some doc"
    and "EMERGENT_LLM_KEY e = Some k" and "k \<noteq> []"
  shows "generate_story e rq w =
     (Inl (HTTPException 500 (Failed (lit ''Story generation failed: '')
        (UnboundLocalError (lit ''prompt'')))), w)"
  using assms
  by (simp add: generate_story_def generate_story_body_def reraise_500_def story_prompt_unknown_type
      get_llm_client_def)

text \<open>
  Claim C3, at a failing input: the state after the upload of one manuscript, the id of
  that document, and the story type \<open>poem\<close>. \<open>POST /story/generate\<close> does not reject
  the request by any validation: the handler looks the document up, builds the client,
  and then fails on the unbound \<open>prompt\<close>, which its \<open>except\<close> turns into a 500. No
  provider call is made and nothing is written (the state is unchanged), and no
  template is taken by default.
\<close>

theorem unknown_story_type_is_answered_with_500:
  "reachable library_world
   \<and> generate_story plain_env
     \<lparr>sr_document_id = lit ''uuid-1'', sr_story_type = lit ''poem'', sr_target_language = lit ''english''\<rparr>
     library_world =
     (Inl (HTTPException 500 (Failed (lit ''Story generation failed: '')
        (UnboundLocalError (lit ''prompt'')))), library_world)
   \<and> status_code (fst (generate_story plain_env
     \<lparr>sr_document_id = lit ''uuid-1'', sr_story_type = lit ''poem'', sr_target_language = lit ''english''\<rparr>
     library_world)) = 500"
proof -
  have "find (\<lambda>d. id' d = lit ''uuid-1'') (cultural_documents library_world) = Some manuscript_document"
    by (simp add: library_world_def manuscript_document_def)
  then show ?thesis
    by (simp add: generate_story_unbound_prompt [where doc = manuscript_document and k = "lit ''sk-test''"]
        plain_env_def lit_def library_world_reachable)
qed

text \<open>The same request with a known story type is served, so the failure is the story type's.\<close>

lemma known_story_type_is_served:
  "status_code (fst (generate_story plain_env
     \<lparr>sr_document_id = lit ''uuid-1'', sr_story_type = lit ''quiz'', sr_target_language = lit ''english''\<rparr>
     library_world)) = 200"
  by (simp add: generate_story_def generate_story_body_def reraise_500_def story_prompt_def
      get_llm_client_def send_message_def plain_env_def library_world_def manuscript_document_def
      Let_def)

section \<open>Properties: uploads\<close>

text \<open>What a successful OCR upload has done.\<close>

lemma upload_document_ocr_success:
  assumes "upload_document_ocr e f script_type language w = (Inr resp, w')"
  shows "json_get resp (lit ''document_id'') = Some (JStr (uuid4 e 1))
     \<and> (\<exists>doc. id' doc = uuid4 e 1 \<and> cultural_documents w' = cultural_documents w @ [doc])
     \<and> files w' = (files w)(fst (save_upload_file e f w) := None)"
  using assms
  by (auto simp: upload_document_ocr_def upload_document_ocr_body_def reraise_500_def
      save_upload_file_def os_remove_def Let_def split: option.splits sum.splits if_splits)

lemma generate_story_found:
  assumes "find (\<lambda>d. id' d = sr_document_id rq) (cultural_documents w) \<noteq> None"
  shows "fst (generate_story e rq w) \<noteq>
     Inl (HTTPException 500 (Failed (lit ''Story generation failed: '')
        (HTTPException 404 (Detail (lit ''Document not found'')))))"
  using assms
  by (auto simp: generate_story_def generate_story_body_def reraise_500_def get_llm_client_def
      send_message_def Let_def split: option.splits sum.splits prod.splits)

text \<open>No request removes or changes a stored document: the collection only grows at its end.\<close>

lemma upload_document_ocr_documents:
  "\<exists>more. cultural_documents (snd (upload_document_ocr e f script_type language w)) = cultural_documents w @ more"
  by (simp add: upload_document_ocr_def upload_document_ocr_body_def save_upload_file_def os_remove_def
      Let_def split: sum.splits prod.splits option.splits)

lemma upload_folk_song_documents:
  "cultural_documents (snd (upload_folk_song e f performer region language w)) = cultural_documents w"
  by (simp add: upload_folk_song_def upload_folk_song_body_def save_upload_file_def
      Let_def split: sum.splits prod.splits option.splits)

lemma restore_text_documents:
  "cultural_documents (snd (restore_text e rq w)) = cultural_documents w"
  by (simp add: restore_text_def restore_text_body_def send_message_def Let_def split: sum.splits prod.splits)

lemma translate_text_documents:
  "cultural_documents (snd (translate_text e tq w)) = cultural_documents w"
  by (simp add: translate_text_def translate_text_body_def send_message_def Let_def split: sum.splits prod.splits)

lemma generate_story_documents:
  "cultural_documents (snd (generate_story e rq w)) = cultural_documents w"
  by (simp add: generate_story_def generate_story_body_def send_message_def
      Let_def split: prod.splits sum.splits option.splits)

lemma get_user_progress_documents:
  "cultural_documents (snd (get_user_progress e u w)) = cultural_documents w"
  by (simp add: get_user_progress_def Let_def split: option.splits)

lemma award_badge_documents:
  "cultural_documents (snd (award_badge u b w)) = cultural_documents w"
  by (simp add: award_badge_def Let_def split: sum.splits option.splits)

lemma later_documents:
  "later w0 w \<Longrightarrow> \<exists>more. cultural_documents w = cultural_documents w0 @ more"
proof (induction rule: later.induct)
  case (now w0)
  show ?case by simp
next
  case (ocr_upload w0 w e upload script_type language)
  from ocr_upload.IH obtain m1 where m1: "cultural_documents w = cultural_documents w0 @ m1" ..
  from upload_document_ocr_documents [of e upload script_type language w] obtain m2 where
    "cultural_documents (snd (upload_document_ocr e upload script_type language w)) = cultural_documents w @ m2" ..
  with m1 show ?case by simp
next
  case (restore w0 w e rq)
  then show ?case by (simp add: restore_text_documents)
next
  case (translate w0 w e tq)
  then show ?case by (simp add: translate_text_documents)
next
  case (speech_upload w0 w e upload performer region language)
  then show ?case by (simp add: upload_folk_song_documents)
next
  case (story w0 w e sq)
  then show ?case by (simp add: generate_story_documents)
next
  case (search w0 w e q)
  then show ?case by (simp add: search_content_snd)
next
  case (progress w0 w e user_id)
  then show ?case by (simp add: get_user_progress_documents)
next
  case (badge w0 w user_id badge_name)
  then show ?case by (simp add: award_badge_documents)
qed

lemma in_take_append:
  "length xs < n \<Longrightarrow> x \<in> set (take n (xs @ x # ys))"
  by (cases "n - length xs") auto

lemma find_member: "x \<in> set xs \<Longrightarrow> P x \<Longrightarrow> find P xs \<noteq> None"
  by (auto simp: find_None_iff)

text \<open>
  What does hold of a successful \<open>POST /ocr/upload\<close>: the \<open>document_id\<close> of its
  response is the id of the record it stored, and in the state it leaves and in every
  later state \<open>POST /story/generate\<close> with that id finds the document (it does not
  take the unknown-document path), in any environment and for any story type; and the
  id is in the list of \<open>GET /documents\<close>, a list of at most 100 records, when fewer
  than 100 documents were stored before the upload.
\<close>

theorem uploaded_document_is_retrievable:
  assumes "upload_document_ocr e f script_type language w = (Inr resp, w')" and "later w' w''"
  shows "json_get resp (lit ''document_id'') = Some (JStr (uuid4 e 1))
     \<and> (length (cultural_documents w) < 100 \<longrightarrow> uuid4 e 1 \<in> set (map id' (get_documents w'')))
     \<and> length (get_documents w'') \<le> 100
     \<and> (\<forall>e2 rq. sr_document_id rq = uuid4 e 1 \<longrightarrow>
           fst (generate_story e2 rq w'') \<noteq>
               Inl (HTTPException 500 (Failed (lit ''Story generation failed: '')
                 (HTTPException 404 (Detail (lit ''Document not found''))))))"
proof -
  from upload_document_ocr_success [OF assms(1)] obtain doc where
    r: "json_get resp (lit ''document_id'') = Some (JStr (uuid4 e 1))"
    and i: "id' doc = uuid4 e 1"
    and c: "cultural_documents w' = cultural_documents w @ [doc]"
    by (elim conjE exE)
  from later_documents [OF assms(2)] c obtain more where
    c': "cultural_documents w'' = cultural_documents w @ doc # more" by auto
  have g: "length (cultural_documents w) < 100 \<longrightarrow> uuid4 e 1 \<in> set (map id' (get_documents w''))"
  proof
    assume "length (cultural_documents w) < 100"
    then have "doc \<in> set (take 100 (cultural_documents w @ doc # more))"
      by (rule in_take_append)
    then have "id' doc \<in> set (map id' (get_documents w''))"
      unfolding get_documents_def c' by (simp only: set_map) (rule imageI)
    then show "uuid4 e 1 \<in> set (map id' (get_documents w''))" by (simp only: i)
  qed
  have s: "fst (generate_story e2 rq w'') \<noteq>
               Inl (HTTPException 500 (Failed (lit ''Story generation failed: '')
                 (HTTPException 404 (Detail (lit ''Document not found'')))))"
    if "sr_document_id rq = uuid4 e 1" for e2 rq
  proof -
    have "doc \<in> set (cultural_documents w'')" by (simp add: c')
    moreover have "id' doc = sr_document_id rq" using that i by simp
    ultimately have "find (\<lambda>d. id' d = sr_document_id rq) (cultural_documents w'') \<noteq> None"
      by (rule find_member)
    then show ?thesis by (rule generate_story_found)
  qed
  have n: "length (get_documents w'') \<le> 100" by (simp add: get_documents_def)
  from r g n s show ?thesis by simp
qed

theorem uploaded_document_is_retrievable_witness:
  "fst (upload_document_ocr plain_env manuscript (lit ''devanagari'') (lit ''sanskrit'') empty_world) =
     Inr (JObj [(lit ''document_id'', JStr (lit ''uuid-1'')),
                 (lit ''extracted_text'', JStr (lit ''[OCR Extracted Text from manuscript.txt]'' @ [10] @ ocr_sample)),
                 (lit ''script_type'', JStr (lit ''devanagari'')),
                 (lit ''language'', JStr (lit ''sanskrit'')),
                 (lit ''status'', JStr (lit ''success''))])
   \<and> later (snd (upload_document_ocr plain_env manuscript (lit ''devanagari'') (lit ''sanskrit'') empty_world))
        (snd (award_badge (lit ''u1'') (lit ''Explorer'')
           (snd (upload_document_ocr plain_env manuscript (lit ''devanagari'') (lit ''sanskrit'') empty_world))))
   \<and> lit ''uuid-1'' \<in> set (map id' (get_documents
        (snd (award_badge (lit ''u1'') (lit ''Explorer'')
           (snd (upload_document_ocr plain_env manuscript (lit ''devanagari'') (lit ''sanskrit'') empty_world))))))
   \<and> fst (generate_story plain_env
           \<lparr>sr_document_id = lit ''uuid-1'', sr_story_type = lit ''quiz'', sr_target_language = lit ''english''\<rparr>
        (snd (award_badge (lit ''u1'') (lit ''Explorer'')
           (snd (upload_document_ocr plain_env manuscript (lit ''devanagari'') (lit ''sanskrit'') empty_world)))))
        \<noteq> Inl (HTTPException 500 (Failed (lit ''Story generation failed: '')
                 (HTTPException 404 (Detail (lit ''Document not found'')))))"
proof -
  let ?up = "upload_document_ocr plain_env manuscript (lit ''devanagari'') (lit ''sanskrit'') empty_world"
  let ?resp = "JObj [(lit ''document_id'', JStr (lit ''uuid-1'')),
                 (lit ''extracted_text'', JStr (lit ''[OCR Extracted Text from manuscript.txt]'' @ [10] @ ocr_sample)),
                 (lit ''script_type'', JStr (lit ''devanagari'')),
                 (lit ''language'', JStr (lit ''sanskrit'')),
                 (lit ''status'', JStr (lit ''success''))]"
  let ?w2 = "snd (award_badge (lit ''u1'') (lit ''Explorer'') (snd ?up))"
  have u: "uuid4 plain_env 1 = lit ''uuid-1''" by (simp add: plain_env_def lit_def)
  have f: "fst ?up = Inr ?resp" by (simp add: upload_manuscript)
  then have up: "?up = (Inr ?resp, snd ?up)" by (simp add: prod_eq_iff)
  have l: "later (snd ?up) ?w2" by (rule later.badge [OF later.now])
  have n: "length (cultural_documents empty_world) < 100" by (simp add: empty_world_def)
  from uploaded_document_is_retrievable [OF up l]
  have a: "length (cultural_documents empty_world) < 100 \<longrightarrow> uuid4 plain_env 1 \<in> set (map id' (get_documents ?w2))"
    and b: "\<forall>e2 rq. sr_document_id rq = uuid4 plain_env 1 \<longrightarrow>
           fst (generate_story e2 rq ?w2) \<noteq>
               Inl (HTTPException 500 (Failed (lit ''Story generation failed: '')
                 (HTTPException 404 (Detail (lit ''Document not found'')))))"
    by blast+
  from a n have a': "lit ''uuid-1'' \<in> set (map id' (get_documents ?w2))" by (simp only: u)
  from b [unfolded u, rule_format,
      of "\<lparr>sr_document_id = lit ''uuid-1'', sr_story_type = lit ''quiz'', sr_target_language = lit ''english''\<rparr>" plain_env]
  have b': "fst (generate_story plain_env
           \<lparr>sr_document_id = lit ''uuid-1'', sr_story_type = lit ''quiz'', sr_target_language = lit ''english''\<rparr> ?w2)
        \<noteq> Inl (HTTPException 500 (Failed (lit ''Story generation failed: '')
                 (HTTPException 404 (Detail (lit ''Document not found'')))))"
    by simp
  from f l a' b' show ?thesis by (intro conjI)
qed

text \<open>
  Beyond the cap the list misses the upload: a document uploaded into a collection of
  100 or more, under an id that no stored document has, is in no later list of
  \<open>GET /documents\<close>.
\<close>

lemma upload_beyond_the_cap_never_listed:
  assumes up: "upload_document_ocr e f script_type language w = (Inr resp, w')"
    and lt: "later w' w''"
    and full: "100 \<le> length (cultural_documents w)"
    and fresh: "uuid4 e 1 \<notin> set (map id' (cultural_documents w))"
  shows "uuid4 e 1 \<notin> set (map id' (get_documents w''))"
proof -
  from upload_document_ocr_success [OF up] obtain doc where
    c: "cultural_documents w' = cultural_documents w @ [doc]"
    by (elim conjE exE)
  from later_documents [OF lt] c obtain more where
    c': "cultural_documents w'' = cultural_documents w @ doc # more" by auto
  have "get_documents w'' = take 100 (cultural_documents w)"
    using full by (simp add: get_documents_def c')
  then have "set (map id' (get_documents w'')) \<subseteq> set (map id' (cultural_documents w))"
    by (auto dest: in_set_takeD)
  with fresh show ?thesis by blast
qed

text \<open>
  Claim C7, at a failing input: the state that 100 uploads reach, and one more upload.
  The upload succeeds and returns a \<open>document_id\<close>, and \<open>GET /documents\<close>, which by
  its docstring gets all cultural documents, returns the 100 older records without it:
  the returned id is not retrievable through the list, as the claim says it is.
\<close>

theorem upload_beyond_the_cap_is_not_listed:
  "reachable full_world
   \<and> fst (upload_document_ocr plain_env manuscript (lit ''devanagari'') (lit ''sanskrit'') full_world) =
     Inr (JObj [(lit ''document_id'', JStr (lit ''uuid-1'')),
                 (lit ''extracted_text'', JStr (lit ''[OCR Extracted Text from manuscript.txt]'' @ [10] @ ocr_sample)),
                 (lit ''script_type'', JStr (lit ''devanagari'')),
                 (lit ''language'', JStr (lit ''sanskrit'')),
                 (lit ''status'', JStr (lit ''success''))])
   \<and> lit ''uuid-1'' \<notin> set (map id' (get_documents
         (snd (upload_document_ocr plain_env manuscript (lit ''devanagari'') (lit ''sanskrit'') full_world))))"
proof -
  have "get_documents (snd (upload_document_ocr plain_env manuscript (lit ''devanagari'') (lit ''sanskrit'') full_world))
      = map older_document [0..<100]"
    by (simp add: upload_manuscript get_documents_def full_world_def empty_world_def)
  moreover have "lit ''uuid-1'' \<notin> set (map id' (map older_document [0..<100]))"
    by (auto simp: older_document_def lit_def)
  ultimately show ?thesis by (simp add: upload_manuscript full_world_reachable)
qed

lemma staged_path_independent:
  "fst (save_upload_file e f w) = gettempdir e @ lit ''/parampara_uploads'' @ lit ''/'' @ uuid4 e 0 @ lit ''_'' @ filename f"
  by (simp add: save_upload_file_def Let_def)

lemma upload_folk_song_success:
  assumes "upload_folk_song e f performer region language w = (Inr resp, w')"
  shows "files w' = (files w)(fst (save_upload_file e f w) \<mapsto> content f)
     \<and> (\<exists>song. folk_songs w' = folk_songs w @ [song]
           \<and> fs_audio_path song = Some (fst (save_upload_file e f w))
           \<and> json_get resp (lit ''song_id'') = Some (JStr (id' song)))"
  using assms
  by (auto simp: upload_folk_song_def upload_folk_song_body_def reraise_500_def
      save_upload_file_def Let_def split: option.splits sum.splits if_splits)

lemma upload_document_ocr_success_files:
  assumes "upload_document_ocr e f script_type language w = (Inr resp, w')"
  shows "files w' = (files w)(fst (save_upload_file e f w) := None)"
  using assms
  by (auto simp: upload_document_ocr_def upload_document_ocr_body_def reraise_500_def
      save_upload_file_def os_remove_def Let_def split: option.splits sum.splits if_splits)

text \<open>
  Claim C9, as amended. When \<open>POST /ocr/upload\<close> succeeds, the file it staged is
  gone. When \<open>POST /speech/upload\<close> succeeds, the file it staged is still there with
  the uploaded content, and its path is the \<open>audio_path\<close> of the stored song whose id
  the response returns.
\<close>

theorem staged_file_is_removed_by_ocr_and_kept_by_speech:
  "(upload_document_ocr e f script_type language w = (Inr resp, w')
      \<longrightarrow> files w' (fst (save_upload_file e f w)) = None)
   \<and> (upload_folk_song e f performer region language w = (Inr resp, w')
      \<longrightarrow> files w' (fst (save_upload_file e f w)) = Some (content f)
        \<and> (\<exists>song. song \<in> set (folk_songs w')
              \<and> fs_audio_path song = Some (fst (save_upload_file e f w))
              \<and> json_get resp (lit ''song_id'') = Some (JStr (id' song))))"
proof (intro conjI impI)
  assume "upload_document_ocr e f script_type language w = (Inr resp, w')"
  from upload_document_ocr_success_files [OF this]
  show "files w' (fst (save_upload_file e f w)) = None" by simp
next
  assume a: "upload_folk_song e f performer region language w = (Inr resp, w')"
  from upload_folk_song_success [OF a]
  show "files w' (fst (save_upload_file e f w)) = Some (content f)" by simp
  from upload_folk_song_success [OF a]
  show "\<exists>song. song \<in> set (folk_songs w')
              \<and> fs_audio_path song = Some (fst (save_upload_file e f w))
              \<and> json_get resp (lit ''song_id'') = Some (JStr (id' song))"
    by auto
qed

text \<open>
  Claim C9 as stated fails: a speech upload that succeeds leaves its staged file behind.
\<close>

theorem staged_recording_is_left_behind_counterexample:
  "status_code (fst (upload_folk_song plain_env recording (lit ''Lata Mangeshkar'') (lit ''Maharashtra'')
       (lit ''marathi'') empty_world)) = 200
   \<and> files (snd (upload_folk_song plain_env recording (lit ''Lata Mangeshkar'') (lit ''Maharashtra'')
       (lit ''marathi'') empty_world)) (lit ''/tmp/parampara_uploads/uuid-0_folk_song.wav'') = Some [82, 73, 70, 70]
   \<and> fst (save_upload_file plain_env recording empty_world) = lit ''/tmp/parampara_uploads/uuid-0_folk_song.wav''"
  by (simp add: upload_recording) (simp add: save_upload_file_def plain_env_def recording_def lit_def Let_def)

theorem staged_file_is_removed_by_ocr_and_kept_by_speech_witness:
  "files (snd (upload_document_ocr plain_env manuscript (lit ''devanagari'') (lit ''sanskrit'') empty_world))
       (fst (save_upload_file plain_env manuscript empty_world)) = None
   \<and> files (snd (upload_folk_song plain_env recording (lit ''Lata Mangeshkar'') (lit ''Maharashtra'')
       (lit ''marathi'') empty_world)) (fst (save_upload_file plain_env recording empty_world)) = Some [82, 73, 70, 70]"
proof -
  let ?o = "upload_document_ocr plain_env manuscript (lit ''devanagari'') (lit ''sanskrit'') empty_world"
  let ?s = "upload_folk_song plain_env recording (lit ''Lata Mangeshkar'') (lit ''Maharashtra'') (lit ''marathi'') empty_world"
  have o: "\<exists>r. ?o = (Inr r, snd ?o)"
    by (simp add: upload_document_ocr_def upload_document_ocr_body_def reraise_500_def
      save_upload_file_def os_remove_def Let_def plain_env_def manuscript_def)
  have s: "\<exists>r. ?s = (Inr r, snd ?s)" by (simp add: upload_recording)
  from o obtain r1 where r1: "?o = (Inr r1, snd ?o)" ..
  from s obtain r2 where r2: "?s = (Inr r2, snd ?s)" ..
  from staged_file_is_removed_by_ocr_and_kept_by_speech
         [where e = plain_env and f = manuscript and script_type = "lit ''devanagari''"
            and language = "lit ''sanskrit''" and w = empty_world and resp = r1 and w' = "snd ?o"] r1
  have a: "files (snd ?o) (fst (save_upload_file plain_env manuscript empty_world)) = None" by blast
  from staged_file_is_removed_by_ocr_and_kept_by_speech
         [where e = plain_env and f = recording and performer = "lit ''Lata Mangeshkar''"
            and region = "lit ''Maharashtra''" and language = "lit ''marathi''" and w = empty_world
            and resp = r2 and w' = "snd ?s"] r2
  have b: "files (snd ?s) (fst (save_upload_file plain_env recording empty_world)) = Some (content recording)" by blast
  from a b show ?thesis by (simp add: recording_def)
qed

text \<open>The failure path of the OCR upload: with no embedding model the staged file stays.\<close>

lemma ocr_failure_leaves_staged_file:
  assumes "embedding_model e = None"
  shows "status_code (fst (upload_document_ocr e f script_type language w)) = 500
     \<and> files (snd (upload_document_ocr e f script_type language w)) (fst (save_upload_file e f w)) = Some (content f)"
  using assms
  by (simp add: upload_document_ocr_def upload_document_ocr_body_def reraise_500_def
      save_upload_file_def Let_def)

section \<open>Properties: search\<close>

lemma score_of_document_item [simp]: "score_of (document_item d) = 0.8"
  by (simp add: score_of_def document_item_def)

lemma score_of_folk_song_item [simp]: "score_of (folk_song_item s) = 0.7"
  by (simp add: score_of_def folk_song_item_def)

lemma sorted_map_const: "sorted (map (\<lambda>x. c) xs)"
  by (induction xs) auto

text \<open>The sort of the semantic branch changes nothing: the list is built in score order.\<close>

lemma sorted_reverse_items:
  "sorted_reverse score_of (map document_item ds @ map folk_song_item ss)
     = map document_item ds @ map folk_song_item ss"
proof -
  have "sorted (map (\<lambda>x. - score_of x) (map document_item ds @ map folk_song_item ss))"
    by (simp add: sorted_append comp_def sorted_map_const)
  then show ?thesis
    unfolding sorted_reverse_def by (rule sort_key_id_if_sorted)
qed

lemma cursor_limit_positive: "0 < n \<Longrightarrow> cursor_limit n xs = take (nat n) xs"
  by (simp add: cursor_limit_def)

lemma cursor_limit_zero: "cursor_limit 0 xs = xs"
  by (simp add: cursor_limit_def)

text \<open>
  Claim C5, as amended. For a semantic search, with the embedding model loaded: when the
  limit is positive the handler answers with the first \<open>limit\<close> documents followed by
  the first \<open>limit\<close> folk songs, in stored order, unfiltered; when the limit is 0 it
  answers with all documents followed by all folk songs; every document item has the
  score 0.8 and every folk-song item the score 0.7; and the answer is the same whatever
  the embedding model computes.
\<close>

theorem semantic_search_is_a_type_priority_sort:
  assumes "sq_search_type rq = lit ''semantic''" and "embedding_model e = Some encode"
  shows "(0 < sq_limit rq \<longrightarrow>
            search_content e rq w =
              (Inr (search_response rq
                 (map document_item (take (nat (sq_limit rq)) (cultural_documents w))
                  @ map folk_song_item (take (nat (sq_limit rq)) (folk_songs w)))), w))
     \<and> (sq_limit rq = 0 \<longrightarrow>
            search_content e rq w =
              (Inr (search_response rq
                 (map document_item (cultural_documents w) @ map folk_song_item (folk_songs w))), w))
     \<and> (\<forall>d. json_get (document_item d) (lit ''score'') = Some (JFloat 0.8))
     \<and> (\<forall>s. json_get (folk_song_item s) (lit ''score'') = Some (JFloat 0.7))
     \<and> search_content (e\<lparr>embedding_model := Some encode'\<rparr>) rq w = search_content e rq w"
proof -
  have a: "search_content e' rq w =
           (Inr (search_response rq
              (map document_item (cursor_limit (sq_limit rq) (cultural_documents w))
               @ map folk_song_item (cursor_limit (sq_limit rq) (folk_songs w)))), w)"
    if "embedding_model e' = Some enc" for e' enc
    using that assms(1)
    by (simp add: search_content_def search_content_body_def reraise_500_def Let_def
        sorted_reverse_items)
  have "search_content (e\<lparr>embedding_model := Some encode'\<rparr>) rq w = search_content e rq w"
    using a [of e encode] a [of "e\<lparr>embedding_model := Some encode'\<rparr>" encode'] assms(2) by simp
  moreover have "\<forall>d. json_get (document_item d) (lit ''score'') = Some (JFloat 0.8)"
    by (simp add: document_item_def)
  moreover have "\<forall>s. json_get (folk_song_item s) (lit ''score'') = Some (JFloat 0.7)"
    by (simp add: folk_song_item_def)
  ultimately show ?thesis using a [OF assms(2)]
    by (simp add: cursor_limit_positive cursor_limit_zero)
qed

theorem semantic_search_is_a_type_priority_sort_witness:
  "fst (search_content plain_env
          \<lparr>sq_query = lit ''ancient wisdom'', sq_search_type = lit ''semantic'', sq_language = None, sq_limit = 5\<rparr>
          archive_world) =
     Inr (JObj [(lit ''query'', JStr (lit ''ancient wisdom'')),
                (lit ''search_type'', JStr (lit ''semantic'')),
                (lit ''results'', JArr [document_item manuscript_document, folk_song_item recording_song]),
                (lit ''total_found'', JInt 2)])
   \<and> fst (search_content plain_env
          \<lparr>sq_query = lit ''ancient wisdom'', sq_search_type = lit ''semantic'', sq_language = None, sq_limit = 2\<rparr>
          full_world) =
     Inr (JObj [(lit ''query'', JStr (lit ''ancient wisdom'')),
                (lit ''search_type'', JStr (lit ''semantic'')),
                (lit ''results'', JArr [document_item (older_document 0), document_item (older_document 1)]),
                (lit ''total_found'', JInt 2)])"
proof -
  have t: "take 2 (map older_document [0..<100]) = [older_document 0, older_document 1]"
    by (simp add: take_map take_upt upt_rec)
  from semantic_search_is_a_type_priority_sort
          [of "\<lparr>sq_query = lit ''ancient wisdom'', sq_search_type = lit ''semantic'', sq_language = None, sq_limit = 5\<rparr>"
              plain_env "\<lambda>t. [0, 1]" archive_world]
  have a: "fst (search_content plain_env
          \<lparr>sq_query = lit ''ancient wisdom'', sq_search_type = lit ''semantic'', sq_language = None, sq_limit = 5\<rparr>
          archive_world) =
     Inr (JObj [(lit ''query'', JStr (lit ''ancient wisdom'')),
                (lit ''search_type'', JStr (lit ''semantic'')),
                (lit ''results'', JArr [document_item manuscript_document, folk_song_item recording_song]),
                (lit ''total_found'', JInt 2)])"
    by (simp add: plain_env_def archive_world_def empty_world_def search_response_def)
  from semantic_search_is_a_type_priority_sort
          [of "\<lparr>sq_query = lit ''ancient wisdom'', sq_search_type = lit ''semantic'', sq_language = None, sq_limit = 2\<rparr>"
              plain_env "\<lambda>t. [0, 1]" full_world]
  have b: "fst (search_content plain_env
          \<lparr>sq_query = lit ''ancient wisdom'', sq_search_type = lit ''semantic'', sq_language = None, sq_limit = 2\<rparr>
          full_world) =
     Inr (JObj [(lit ''query'', JStr (lit ''ancient wisdom'')),
                (lit ''search_type'', JStr (lit ''semantic'')),
                (lit ''results'', JArr [document_item (older_document 0), document_item (older_document 1)]),
                (lit ''total_found'', JInt 2)])"
    by (simp add: plain_env_def full_world_def empty_world_def search_response_def t)
  from a b show ?thesis by (rule conjI)
qed

text \<open>
  Claim C5 as stated fails at the limit 0, which the store reads as no limit: in the
  state after one document upload and one song upload, the search returns two items,
  not "up to 0".
\<close>

theorem unlimited_semantic_search_counterexample:
  "reachable archive_world
   \<and> fst (search_content plain_env
          \<lparr>sq_query = lit ''ancient wisdom'', sq_search_type = lit ''semantic'', sq_language = None, sq_limit = 0\<rparr>
          archive_world) =
     Inr (JObj [(lit ''query'', JStr (lit ''ancient wisdom'')),
                (lit ''search_type'', JStr (lit ''semantic'')),
                (lit ''results'', JArr [document_item manuscript_document, folk_song_item recording_song]),
                (lit ''total_found'', JInt 2)])"
  by (simp add: archive_world_reachable) (simp add: search_content_def search_content_body_def reraise_500_def Let_def cursor_limit_def
      sorted_reverse_items [of "[manuscript_document]" "[recording_song]", simplified]
      plain_env_def archive_world_def empty_world_def search_response_def)

text \<open>The keyword branch: which documents stand behind the items of a response.\<close>

lemma keyword_items_sources:
  "keyword_items docs = Inr rs \<Longrightarrow> r \<in> set rs \<Longrightarrow> \<exists>d \<in> set docs. keyword_item d = Inr r"
proof (induction docs arbitrary: rs)
  case Nil
  then show ?case by simp
next
  case (Cons d docs)
  from Cons.prems(1) obtain r0 rs0 where
    d: "keyword_item d = Inr r0" and t: "keyword_items docs = Inr rs0" and e: "rs = r0 # rs0"
    by (auto split: sum.splits)
  show ?case
  proof (cases "r = r0")
    case True
    with d show ?thesis by simp
  next
    case False
    with Cons.prems(2) e have "r \<in> set rs0" by simp
    from Cons.IH [OF t this] show ?thesis by auto
  qed
qed

lemma cursor_limit_subset: "set (cursor_limit n xs) \<subseteq> set xs"
  by (auto simp: cursor_limit_def dest: in_set_takeD)

lemma keyword_search_success:
  assumes "sq_search_type rq \<noteq> lit ''semantic''" and "search_content e rq w = (Inr resp, w')"
  shows "\<exists>m rs. regex e (sq_query rq) = Some m
     \<and> keyword_items (cursor_limit (sq_limit rq) (filter (keyword_match m) (cultural_documents w))) = Inr rs
     \<and> resp = search_response rq rs"
  using assms
  by (auto simp: search_content_def search_content_body_def reraise_500_def Let_def
      split: option.splits sum.splits)

text \<open>
  Claim C6, as amended. Every item of a successful keyword search is built from a stored
  document whose title, original text or description matches the query as a regular
  expression (the store's \<open>$regex\<close> with option \<open>i\<close>, compiled to the predicate \<open>m\<close>),
  and from no other document. Where that predicate is the case-insensitive substring
  search for the query, every item comes from a document that contains the query.
\<close>

theorem keyword_search_returns_regex_matches:
  assumes "sq_search_type rq \<noteq> lit ''semantic''" and "search_content e rq w = (Inr resp, w')"
  shows "\<exists>m. regex e (sq_query rq) = Some m
     \<and> (\<forall>r \<in> set (results_of resp). \<exists>d \<in> set (cultural_documents w).
           keyword_item d = Inr r \<and> keyword_match m d)
     \<and> (m = icontains (sq_query rq) \<longrightarrow>
          (\<forall>r \<in> set (results_of resp). \<exists>d \<in> set (cultural_documents w).
             keyword_item d = Inr r \<and> keyword_match (icontains (sq_query rq)) d))"
proof -
  from keyword_search_success [OF assms] obtain m rs where
    m: "regex e (sq_query rq) = Some m"
    and k: "keyword_items (cursor_limit (sq_limit rq) (filter (keyword_match m) (cultural_documents w))) = Inr rs"
    and r: "resp = search_response rq rs"
    by (elim exE conjE)
  have rs: "results_of resp = rs" by (simp add: r results_of_def search_response_def)
  have all: "\<exists>d \<in> set (cultural_documents w). keyword_item d = Inr x \<and> keyword_match m d"
    if "x \<in> set rs" for x
  proof -
    from keyword_items_sources [OF k that] obtain d where
      d: "d \<in> set (cursor_limit (sq_limit rq) (filter (keyword_match m) (cultural_documents w)))"
      and i: "keyword_item d = Inr x" by (elim bexE)
    from d cursor_limit_subset have "d \<in> set (filter (keyword_match m) (cultural_documents w))"
      by (rule rev_subsetD)
    with i show ?thesis by auto
  qed
  show ?thesis
  proof (intro exI [of _ m] conjI)
    show "regex e (sq_query rq) = Some m" by (fact m)
    show g: "\<forall>r \<in> set (results_of resp). \<exists>d \<in> set (cultural_documents w).
           keyword_item d = Inr r \<and> keyword_match m d"
      using all by (simp add: rs)
    show "m = icontains (sq_query rq) \<longrightarrow>
          (\<forall>r \<in> set (results_of resp). \<exists>d \<in> set (cultural_documents w).
             keyword_item d = Inr r \<and> keyword_match (icontains (sq_query rq)) d)"
    proof
      assume "m = icontains (sq_query rq)"
      with g show "\<forall>r \<in> set (results_of resp). \<exists>d \<in> set (cultural_documents w).
             keyword_item d = Inr r \<and> keyword_match (icontains (sq_query rq)) d"
        by simp
    qed
  qed
qed

text \<open>A keyword search for the pattern \<open>m.n\<close> in the state with the one document.\<close>

lemma keyword_search_for_a_pattern:
  "search_content plain_env
       \<lparr>sq_query = lit ''m.n'', sq_search_type = lit ''keyword'', sq_language = None, sq_limit = 10\<rparr>
       library_world =
     (Inr (JObj [(lit ''query'', JStr (lit ''m.n'')),
                 (lit ''search_type'', JStr (lit ''keyword'')),
                 (lit ''results'', JArr
                    [JObj [(lit ''type'', JStr (lit ''document'')),
                           (lit ''id'', JStr (lit ''uuid-1'')),
                           (lit ''title'', JStr (lit ''manuscript.txt'')),
                           (lit ''content'', JStr (lit ''[OCR Extracted Text from manuscript.txt]'' @ [10] @ ocr_sample @ lit ''...'')),
                           (lit ''language'', JStr (lit ''sanskrit'')),
                           (lit ''region'', JStr (lit ''Unknown''))]]),
                 (lit ''total_found'', JInt 1)]), library_world)"
  by (simp add: search_content_def search_content_body_def reraise_500_def Let_def cursor_limit_def
      plain_env_def library_world_def empty_world_def search_response_def manuscript_document_def
      literal_dot_regex_def keyword_match_def keyword_item_def atom_matches_def ascii_lower_def
      ocr_sample_def lit_def)

text \<open>
  Claim C6 as stated fails for a query with a metacharacter: in the state after the
  upload of \<open>manuscript.txt\<close>, the query \<open>m.n\<close> returns that document, and neither
  its title nor its text contains \<open>m.n\<close>, and it has no description.
\<close>

theorem pattern_query_counterexample:
  "reachable library_world
   \<and> fst (search_content plain_env
       \<lparr>sq_query = lit ''m.n'', sq_search_type = lit ''keyword'', sq_language = None, sq_limit = 10\<rparr>
       library_world) =
     Inr (JObj [(lit ''query'', JStr (lit ''m.n'')),
                (lit ''search_type'', JStr (lit ''keyword'')),
                (lit ''results'', JArr
                    [JObj [(lit ''type'', JStr (lit ''document'')),
                           (lit ''id'', JStr (lit ''uuid-1'')),
                           (lit ''title'', JStr (lit ''manuscript.txt'')),
                           (lit ''content'', JStr (lit ''[OCR Extracted Text from manuscript.txt]'' @ [10] @ ocr_sample @ lit ''...'')),
                           (lit ''language'', JStr (lit ''sanskrit'')),
                           (lit ''region'', JStr (lit ''Unknown''))]]),
                (lit ''total_found'', JInt 1)])
   \<and> cultural_documents library_world = [manuscript_document]
   \<and> \<not> icontains (lit ''m.n'') (cd_title manuscript_document)
   \<and> cd_original_text manuscript_document = Some (lit ''[OCR Extracted Text from manuscript.txt]'' @ [10] @ ocr_sample)
   \<and> \<not> icontains (lit ''m.n'') (lit ''[OCR Extracted Text from manuscript.txt]'' @ [10] @ ocr_sample)
   \<and> cd_description manuscript_document = None"
  by (simp add: keyword_search_for_a_pattern library_world_reachable)
     (simp add: library_world_def empty_world_def manuscript_document_def icontains_def ascii_lower_def
        ocr_sample_def lit_def)

theorem keyword_search_returns_regex_matches_witness:
  "fst (search_content plain_env
       \<lparr>sq_query = lit ''m.n'', sq_search_type = lit ''keyword'', sq_language = None, sq_limit = 10\<rparr>
       library_world) =
     Inr (JObj [(lit ''query'', JStr (lit ''m.n'')),
                (lit ''search_type'', JStr (lit ''keyword'')),
                (lit ''results'', JArr
                    [JObj [(lit ''type'', JStr (lit ''document'')),
                           (lit ''id'', JStr (lit ''uuid-1'')),
                           (lit ''title'', JStr (lit ''manuscript.txt'')),
                           (lit ''content'', JStr (lit ''[OCR Extracted Text from manuscript.txt]'' @ [10] @ ocr_sample @ lit ''...'')),
                           (lit ''language'', JStr (lit ''sanskrit'')),
                           (lit ''region'', JStr (lit ''Unknown''))]]),
                (lit ''total_found'', JInt 1)])
   \<and> regex plain_env (lit ''m.n'') = Some (match_anywhere (lit ''m.n''))
   \<and> keyword_match (match_anywhere (lit ''m.n'')) manuscript_document"
proof -
  let ?rq = "\<lparr>sq_query = lit ''m.n'', sq_search_type = lit ''keyword'', sq_language = None, sq_limit = 10\<rparr>"
  let ?item = "JObj [(lit ''type'', JStr (lit ''document'')),
                           (lit ''id'', JStr (lit ''uuid-1'')),
                           (lit ''title'', JStr (lit ''manuscript.txt'')),
                           (lit ''content'', JStr (lit ''[OCR Extracted Text from manuscript.txt]'' @ [10] @ ocr_sample @ lit ''...'')),
                           (lit ''language'', JStr (lit ''sanskrit'')),
                           (lit ''region'', JStr (lit ''Unknown''))]"
  let ?resp = "JObj [(lit ''query'', JStr (lit ''m.n'')),
                (lit ''search_type'', JStr (lit ''keyword'')),
                (lit ''results'', JArr [?item]),
                (lit ''total_found'', JInt 1)]"
  have s: "search_content plain_env ?rq library_world = (Inr ?resp, library_world)"
    by (rule keyword_search_for_a_pattern)
  have x: "regex plain_env (lit ''m.n'') = Some (match_anywhere (lit ''m.n''))"
    by (simp add: plain_env_def literal_dot_regex_def lit_def)
  have t: "sq_search_type ?rq \<noteq> lit ''semantic''" by simp
  from keyword_search_returns_regex_matches [OF t s]
  obtain m where "regex plain_env (sq_query ?rq) = Some m"
    and "\<forall>r \<in> set (results_of ?resp).
           \<exists>d \<in> set (cultural_documents library_world). keyword_item d = Inr r \<and> keyword_match m d"
    by (elim exE conjE)
  with x have "keyword_match (match_anywhere (lit ''m.n'')) manuscript_document"
    by (simp add: results_of_def library_world_def)
  with x s show ?thesis by simp
qed

end
